theory Spec2Isabelle
  imports Complex_Main "HOL-Library.Word"
begin

unbundle bit_operations_syntax

section \<open>JavaScript values shared by the modules\<close>

text \<open>
  The repository is a set of browser scripts, each wrapped in its own function scope.
  Numbers that the code keeps integral (indices, millisecond timestamps, seeds) are
  \<open>int\<close> or \<open>nat\<close>; probabilities and the values returned by the random number
  generator are \<open>rat\<close>; 32-bit intermediate values are \<open>32 word\<close>. A string is the
  list of its UTF-16 code units, which is what \<open>length\<close>, \<open>slice\<close> and
  \<open>charCodeAt\<close> of the source count. An exception is a value of \<open>js_error\<close>.
\<close>

datatype js_error = ReferenceError

type_synonym u32 = "32 word"

type_synonym jsstring = "nat list"

definition js :: "string \<Rightarrow> jsstring" where
  "js s = map (of_char :: char \<Rightarrow> nat) s"

text \<open>\<open>a || d\<close> on numbers: \<open>undefined\<close> (here \<open>None\<close>) and \<open>0\<close> are falsy.\<close>

definition nz :: "'a::zero \<Rightarrow> 'a \<Rightarrow> 'a" where
  "nz x d = (if x = 0 then d else x)"

definition truthy_or :: "'a::zero option \<Rightarrow> 'a \<Rightarrow> 'a" where
  "truthy_or v d = (case v of None \<Rightarrow> d | Some x \<Rightarrow> nz x d)"

text \<open>\<open>a || b\<close> on strings: the empty string is falsy.\<close>

definition or_str :: "jsstring \<Rightarrow> jsstring \<Rightarrow> jsstring" where
  "or_str a b = (if a = [] then b else a)"

text \<open>\<open>Math.round\<close>: the nearest integer, a tie going up.\<close>

definition js_round :: "rat \<Rightarrow> int" where
  "js_round x = \<lfloor>x + 1 / 2\<rfloor>"

definition clamp :: "'a::linorder \<Rightarrow> 'a \<Rightarrow> 'a \<Rightarrow> 'a" where
  "clamp v a b = max a (min b v)"

text \<open>Decimal rendering of a non-negative integer (string concatenation with a number).\<close>

fun dec :: "nat \<Rightarrow> jsstring" where
  "dec n = (if n < 10 then [48 + n] else dec (n div 10) @ [48 + n mod 10])"

declare dec.simps [simp del]

text \<open>\<open>n.toString(36)\<close> for a non-negative integer: digits \<open>0-9\<close> then \<open>a-z\<close>.\<close>

definition digit36 :: "nat \<Rightarrow> nat" where
  "digit36 d = (if d < 10 then 48 + d else 87 + d)"

fun toString36 :: "nat \<Rightarrow> jsstring" where
  "toString36 n =
     (if n < 36 then [digit36 n] else toString36 (n div 36) @ [digit36 (n mod 36)])"

declare toString36.simps [simp del]

section \<open>SeededRNG: \<open>xorshift32\<close>\<close>

text \<open>
  The same factory stands in message-pool.js, synthetic-people.js, typing-engine.js and
  presence-manager.js: \<open>let x = (seed >>> 0) || 0x811c9dc5\<close>, and each call of the
  returned closure advances \<open>x\<close> by three shift-xor steps and returns
  \<open>(x >>> 0) / 4294967296\<close>. \<open>seed >>> 0\<close> is the seed modulo \<open>2^32\<close>. The closure's
  state is passed explicitly: \<open>xorshift32_init\<close> is the state after construction,
  \<open>xorshift32_next\<close> the state after one call, \<open>rnd_value\<close> the number that call
  returned (a multiple of \<open>2^-32\<close>, exact in a double).
\<close>

definition to_uint32 :: "int \<Rightarrow> u32" where
  "to_uint32 n = word_of_int n"

definition xorshift32_init :: "int \<Rightarrow> u32" where
  "xorshift32_init seed = (let x = to_uint32 seed in if x = 0 then 0x811c9dc5 else x)"

definition xorshift32_next :: "u32 \<Rightarrow> u32" where
  "xorshift32_next x =
     (let x1 = x XOR push_bit 13 x;
          x2 = x1 XOR drop_bit 17 x1;
          x3 = x2 XOR push_bit 5 x2
      in x3)"

definition rnd_value :: "u32 \<Rightarrow> rat" where
  "rnd_value x = of_nat (unat x) / 4294967296"

text \<open>
  \<open>Math.floor(rnd() * n)\<close> for an array length \<open>n\<close>: the product of a multiple of
  \<open>2^-32\<close> below 1 with an integer below \<open>2^21\<close> is exact in a double.
\<close>

definition rnd_index :: "u32 \<Rightarrow> nat \<Rightarrow> nat" where
  "rnd_index x n = (unat x * n) div 4294967296"

text \<open>The \<open>k\<close>-th number (from 0) that the generator made from \<open>seed\<close> returns.\<close>

definition xorshift32_seq :: "int \<Rightarrow> nat \<Rightarrow> rat" where
  "xorshift32_seq seed k = rnd_value ((xorshift32_next ^^ Suc k) (xorshift32_init seed))"

section \<open>MessagePool (message-pool.js)\<close>

subsection \<open>Data\<close>

text \<open>
  A member of \<open>window.sampleMembers\<close> or \<open>window.SyntheticPeople.people\<close>, as far as
  the pool reads it; an absent or empty field is the empty string (both are falsy).
\<close>

record member =
  m_id :: jsstring
  m_name :: jsstring
  m_displayName :: jsstring
  m_role :: jsstring
  m_avatar :: jsstring

text \<open>
  What message-pool.js reads from the global scope: the two member lists it probes, in
  this order (a list that is absent or not an array is the empty list here), and the
  binding of the identifier \<open>pickFrom\<close>. The script calls \<open>pickFrom\<close> at lines 151
  and 245 without declaring or importing it, so the identifier is looked up in the
  global scope; \<open>None\<close> says that there is no such global.
\<close>

record env =
  sampleMembers :: "member list"
  people :: "member list"
  global_pickFrom :: "(jsstring list \<Rightarrow> u32 \<Rightarrow> jsstring \<times> u32) option"

text \<open>
  The message object of lines 201-213. \<open>out\<close> and \<open>pinned\<close> are the constant
  \<open>false\<close>; the attachment is its file name (the url is \<open>'/assets/'\<close> plus that name).
\<close>

record message =
  msg_id :: jsstring
  msg_name :: jsstring
  msg_displayName :: jsstring
  msg_role :: jsstring
  msg_avatar :: jsstring
  msg_text :: jsstring
  msg_time :: int
  msg_replyTo :: "jsstring option"
  msg_attachment :: "jsstring option"

text \<open>The options object; \<open>None\<close> is a property that is not given.\<close>

record gen_opts =
  o_size :: "int option"
  o_seedBase :: "int option"
  o_startTimestamp :: "int option"
  o_endTimestamp :: "int option"
  o_spanDays :: "int option"
  o_jitterMs :: "int option"
  o_replyFraction :: "rat option"
  o_attachmentFraction :: "rat option"
  o_templates :: "jsstring list option"
  o_dedupeLRU :: "nat option"
  o_pageSize :: "nat option"

record pool_meta =
  meta_size :: int
  meta_seedBase :: int
  meta_spanDays :: int
  meta_replyFraction :: rat
  meta_attachmentFraction :: rat

text \<open>The mutable fields of the \<open>MessagePool\<close> object.\<close>

record pool_state =
  messages :: "message list"
  meta :: pool_meta
  templateFragments :: "jsstring list"

definition DEFAULT_PHRASES :: "jsstring list" where
  "DEFAULT_PHRASES =
    [js ''Anyone watching the market?'',
     js ''I'' @ [39] @ js ''ll wait for the retracement.'',
     js ''Bought more on the dip '' @ [55357, 56960],
     js ''Stop loss set.'',
     js ''TP hit, taking profit.'',
     js ''Can someone share the signal?'',
     js ''Nice call on that last trade.'',
     js ''That candle was wild '' @ [55357, 56837],
     js ''Holding long, strong fundamentals.'',
     js ''What level are you watching?'',
     js ''See you in the green.'',
     js ''Avoid FOMO, set a plan.'',
     js ''News just popped '' @ [8212] @ js '' check it out.'',
     js ''Looking for entry around here.'',
     js ''Testing strategy '' @ [8212] @ js '' ignore my trades.'']"

definition EMOJI :: "jsstring list" where
  "EMOJI =
    [[10024],
     [55357, 56613],
     [55357, 56462],
     [55358, 56714],
     [55357, 56371],
     [55357, 56960],
     [55357, 56837],
     [55357, 56594],
     [55356, 57263],
     [55357, 56496],
     [55357, 56520],
     [11088],
     [55357, 56842],
     [55357, 56846]]"

definition SAMPLE_ATTACHMENTS :: "jsstring list" where
  "SAMPLE_ATTACHMENTS =
    [js ''chart-1.png'',
     js ''screenshot-01.png'',
     js ''trade-report.pdf'',
     js ''voice-msg-12.mp3'',
     js ''screenshot-02.jpg'']"

text \<open>The object's initial field values (lines 94-99).\<close>

definition initial_pool :: pool_state where
  "initial_pool =
     \<lparr> messages = [],
       meta = \<lparr> meta_size = 1000, meta_seedBase = 4000, meta_spanDays = 365,
                meta_replyFraction = 3 / 100, meta_attachmentFraction = 4 / 100 \<rparr>,
       templateFragments = DEFAULT_PHRASES \<rparr>"

definition no_opts :: gen_opts where
  "no_opts =
     \<lparr> o_size = None, o_seedBase = None, o_startTimestamp = None, o_endTimestamp = None,
       o_spanDays = None, o_jitterMs = None, o_replyFraction = None,
       o_attachmentFraction = None, o_templates = None, o_dedupeLRU = None,
       o_pageSize = None \<rparr>"

subsection \<open>Hashes and the LRU\<close>

text \<open>
  \<open>contentHash\<close> (lines 38-42): \<open>h = ((h << 5) + h) ^ charCode\<close> from 5381, the
  bitwise operators working on 32 bits, then \<open>(h >>> 0).toString(36)\<close>.
  \<open>hashCode\<close> (lines 387-391): \<open>h = ((h << 5) - h) + charCode; h |= 0\<close> from 0, then
  the unsigned value.
\<close>

definition contentHash :: "jsstring \<Rightarrow> jsstring" where
  "contentHash str =
     toString36 (unat (foldl (\<lambda>h c. (push_bit 5 h + h) XOR of_nat c) (5381 :: u32) str))"

definition hashCode :: "jsstring \<Rightarrow> nat" where
  "hashCode s = unat (foldl (\<lambda>h c. push_bit 5 h - h + of_nat c) (0 :: u32) s)"

text \<open>
  \<open>makeLRU\<close> (lines 45-63) keeps a \<open>Map\<close>; the model keeps its keys in insertion
  order, the oldest first. \<open>push\<close> moves a key that is present to the end, and drops
  the first key once there are more than \<open>cap\<close>.
\<close>

type_synonym lru = "jsstring list"

definition makeLRU_cap :: "nat option \<Rightarrow> nat" where
  "makeLRU_cap c = max 32 (truthy_or c 4096)"

definition lru_has :: "lru \<Rightarrow> jsstring \<Rightarrow> bool" where
  "lru_has ks k = (k \<in> set ks)"

definition lru_push :: "nat \<Rightarrow> lru \<Rightarrow> jsstring \<Rightarrow> lru" where
  "lru_push cap ks k =
     (let ks1 = (if lru_has ks k then removeAll k ks else ks);
          ks2 = ks1 @ [k]
      in if length ks2 > cap then tl ks2 else ks2)"

subsection \<open>The per-index generator \<open>_generateMessageForIndex\<close>\<close>

text \<open>
  The call \<open>pickFrom(arr, rnd)\<close>. Evaluating an identifier that has no binding raises
  \<open>ReferenceError\<close>, before the arguments are evaluated. A bound function is given the
  array and the state of the generator and returns its result (as it prints in a string
  concatenation) and the state it leaves.
\<close>

definition pickFrom :: "env \<Rightarrow> jsstring list \<Rightarrow> u32 \<Rightarrow> js_error + jsstring \<times> u32" where
  "pickFrom e arr s =
     (case global_pickFrom e of None \<Rightarrow> Inl ReferenceError | Some f \<Rightarrow> Inr (f arr s))"

text \<open>
  The scripts of the repository as they stand: each is wrapped in a function of its
  own, and none assigns \<open>window.pickFrom\<close> (the function of that name in
  synthetic-people.js is local to that script), so the identifier has no binding.
\<close>

definition repository_env :: "member list \<Rightarrow> member list \<Rightarrow> env" where
  "repository_env sample ppl =
     \<lparr> sampleMembers = sample, people = ppl, global_pickFrom = None \<rparr>"

text \<open>Lines 123-135: the sender, drawn from the first non-empty member list.\<close>

definition pick_sender :: "env \<Rightarrow> u32 \<Rightarrow> member option \<times> u32" where
  "pick_sender e s =
     (if sampleMembers e \<noteq> [] then
        (let s1 = xorshift32_next s
         in (Some (sampleMembers e ! rnd_index s1 (length (sampleMembers e))), s1))
      else if people e \<noteq> [] then
        (let s1 = xorshift32_next s
         in (Some (people e ! rnd_index s1 (length (people e))), s1))
      else (None, s))"

definition fallback_sender :: "nat \<Rightarrow> member" where
  "fallback_sender i =
     \<lparr> m_id = js ''sp_'' @ dec (i mod 1000), m_name = [],
       m_displayName = js ''Member '' @ dec (i mod 500 + 1),
       m_role = js ''VERIFIED'', m_avatar = [] \<rparr>"

text \<open>
  Line 142: \<open>templates[floor(rnd()*templates.length)] || DEFAULT_PHRASES[floor(rnd()*15)]\<close>;
  the second draw happens only when the first pick is \<open>undefined\<close> or the empty string.
\<close>

definition pick_fragment :: "jsstring list \<Rightarrow> u32 \<Rightarrow> jsstring \<times> u32" where
  "pick_fragment templates s =
     (let s1 = xorshift32_next s; k = rnd_index s1 (length templates)
      in if k < length templates \<and> templates ! k \<noteq> [] then (templates ! k, s1)
         else (let s2 = xorshift32_next s1
               in (DEFAULT_PHRASES ! rnd_index s2 (length DEFAULT_PHRASES), s2)))"

text \<open>Lines 141-144: the loop over \<open>t\<close>, with \<open>n\<close> fragments still to append.\<close>

fun text_loop :: "jsstring list \<Rightarrow> nat \<Rightarrow> nat \<Rightarrow> jsstring \<Rightarrow> u32 \<Rightarrow> jsstring \<times> u32" where
  "text_loop templates 0 t txt s = (txt, s)"
| "text_loop templates (Suc n) t txt s =
     (let (frag, s1) = pick_fragment templates s
      in text_loop templates n (Suc t) (txt @ (if t \<noteq> 0 then js '' '' else []) @ frag) s1)"

text \<open>
  Line 148: \<open>(Math.round((rnd()*980 + 20) * 100) / 100).toFixed(2)\<close>. Every
  intermediate value is a multiple of \<open>2^-32\<close> below \<open>2^17\<close>, hence exact; the result
  is the rounded number of hundredths printed with two decimals.
\<close>

definition toFixed2 :: "nat \<Rightarrow> jsstring" where
  "toFixed2 n = dec (n div 100) @ [46, 48 + (n mod 100) div 10, 48 + n mod 10]"

definition price_token :: "u32 \<Rightarrow> jsstring" where
  "price_token s =
     [32, 8212, 32, 36] @ toFixed2 (nat (js_round ((rnd_value s * 980 + 20) * 100)))"

text \<open>Line 155: sometimes an exclamation mark or an ellipsis.\<close>

definition gen_ending :: "jsstring \<Rightarrow> u32 \<Rightarrow> jsstring \<times> u32" where
  "gen_ending txt s =
     (let s1 = xorshift32_next s
      in if rnd_value s1 < 12 / 100 then
           (let s2 = xorshift32_next s1
            in (txt @ (if rnd_value s2 < 1 / 2 then js ''!'' else js ''...''), s2))
         else (txt, s1))"

text \<open>
  Lines 138-155: the text. The constants \<open>0.12\<close>, \<open>0.18\<close> and \<open>0.5\<close> are compared
  with a multiple of \<open>2^-32\<close>; the double nearest to each decimal lies strictly between
  the same two multiples as the decimal, so the comparison with the rational is the
  comparison the code makes.
\<close>

definition gen_text :: "env \<Rightarrow> jsstring list \<Rightarrow> u32 \<Rightarrow> js_error + jsstring \<times> u32" where
  "gen_text e templates s0 =
     (let s1 = xorshift32_next s0;
          fragCount = (if rnd_value s1 < 12 / 100 then Suc (Suc 0) else Suc 0);
          (txt, s2) = text_loop templates fragCount 0 [] s1;
          s3 = xorshift32_next s2
      in if rnd_value s3 < 18 / 100 then
           (let s4 = xorshift32_next s3 in Inr (gen_ending (txt @ price_token s4) s4))
         else
           (let s4 = xorshift32_next s3
            in if rnd_value s4 < 12 / 100 then
                 (case pickFrom e EMOJI s4 of
                    Inl err \<Rightarrow> Inl err
                  | Inr (em, s5) \<Rightarrow> Inr (gen_ending (txt @ js '' '' @ em) s5))
               else Inr (gen_ending txt s4)))"

text \<open>Lines 158-162.\<close>

definition pick_attachment :: "rat \<Rightarrow> u32 \<Rightarrow> jsstring option \<times> u32" where
  "pick_attachment fraction s =
     (let s1 = xorshift32_next s
      in if rnd_value s1 < fraction then
           (let s2 = xorshift32_next s1
            in (Some (SAMPLE_ATTACHMENTS ! rnd_index s2 (length SAMPLE_ATTACHMENTS)), s2))
         else (None, s1))"

text \<open>
  Lines 165-170: \<open>rnd() < fraction && this.messages.length\<close>; the index is drawn only
  when the stored pool is not empty.
\<close>

definition pick_reply :: "rat \<Rightarrow> message list \<Rightarrow> u32 \<Rightarrow> jsstring option \<times> u32" where
  "pick_reply fraction msgs s =
     (let s1 = xorshift32_next s
      in if rnd_value s1 < fraction \<and> msgs \<noteq> [] then
           (let s2 = xorshift32_next s1
            in (Some (msg_id (msgs ! rnd_index s2 (min (length msgs) 100))), s2))
         else (None, s1))"

text \<open>
  Lines 173-190: the window \<open>(startTs, endTs)\<close>. \<open>now\<close> is the value \<open>Date.now()\<close>
  returned in this call.
\<close>

definition time_window :: "int \<Rightarrow> gen_opts \<Rightarrow> pool_meta \<Rightarrow> int \<times> int" where
  "time_window now opts m =
     (if o_startTimestamp opts \<noteq> None \<or> o_endTimestamp opts \<noteq> None then
        (truthy_or (o_startTimestamp opts) (now - 365 * 24 * 60 * 60 * 1000),
         truthy_or (o_endTimestamp opts) now)
      else
        (let spanDays = truthy_or (o_spanDays opts) (nz (meta_spanDays m) 365)
         in (now - spanDays * 86400000, now)))"

text \<open>
  Lines 117-216. The interpolation \<open>Math.round(frac * (endTs - startTs))\<close> is taken on
  the exact quotient.
\<close>

definition generateMessageForIndex ::
  "env \<Rightarrow> pool_state \<Rightarrow> int \<Rightarrow> nat \<Rightarrow> gen_opts \<Rightarrow> js_error + message" where
  "generateMessageForIndex e st now i opts =
     (let seedBase = truthy_or (o_seedBase opts) (nz (meta_seedBase (meta st)) 4000);
          s0 = xorshift32_init (seedBase + int i * 15721);
          (picked, s1) = pick_sender e s0;
          sender = (case picked of Some m \<Rightarrow> m | None \<Rightarrow> fallback_sender i);
          templates = (case o_templates opts of Some ts \<Rightarrow> ts | None \<Rightarrow> templateFragments st)
      in case gen_text e templates s1 of
           Inl err \<Rightarrow> Inl err
         | Inr (txt, s2) \<Rightarrow>
             (let (attachment, s3) =
                    pick_attachment
                      (truthy_or (o_attachmentFraction opts)
                         (nz (meta_attachmentFraction (meta st)) (4 / 100))) s2;
                  (replyTo, s4) =
                    pick_reply
                      (truthy_or (o_replyFraction opts)
                         (nz (meta_replyFraction (meta st)) (3 / 100))) (messages st) s3;
                  (startTs, endTs) = time_window now opts (meta st);
                  poolSize = truthy_or (o_size opts) (nz (meta_size (meta st)) 1);
                  frac = (if poolSize > 1 then of_nat i / of_int (max 1 (poolSize - 1)) else 0);
                  baseTime = startTs + js_round (frac * of_int (endTs - startTs));
                  jitterMs = truthy_or (o_jitterMs opts) (1000 * 60 * 30);
                  s5 = xorshift32_next s4;
                  localJitter = js_round ((rnd_value s5 - 1 / 2) * 2 * of_int jitterMs);
                  time = max 0 (baseTime + localJitter)
              in Inr \<lparr> msg_id = js ''msg_'' @ dec (i + 1) @ js ''_'' @ dec (hashCode (take 80 txt)),
                       msg_name = or_str (or_str (m_name sender) (m_displayName sender))
                                    (js ''Member_'' @ dec (i mod 500 + 1)),
                       msg_displayName = or_str (or_str (m_displayName sender) (m_name sender))
                                    (js ''Member '' @ dec (i mod 500 + 1)),
                       msg_role = or_str (m_role sender) (js ''VERIFIED''),
                       msg_avatar = m_avatar sender,
                       msg_text = txt,
                       msg_time = time,
                       msg_replyTo = replyTo,
                       msg_attachment = attachment \<rparr>))"

subsection \<open>\<open>preGenerateTemplates\<close>\<close>

text \<open>
  Lines 101-114. Each turn of the \<open>while\<close> loop appends one fragment, so the loop
  runs once per missing fragment; \<open>k\<close> counts the turns left.
\<close>

fun pre_loop :: "jsstring list \<Rightarrow> nat \<Rightarrow> jsstring list \<Rightarrow> u32 \<Rightarrow> jsstring list" where
  "pre_loop base 0 frags s = frags"
| "pre_loop base (Suc k) frags s =
     (let (a, s1) = pick_fragment base s;
          (b, s2) = pick_fragment base s1;
          s3 = xorshift32_next s2;
          joiner = (if rnd_value s3 < 1 / 2 then [32, 8212, 32] else [32]);
          cand = take 280 (a @ joiner @ b)
      in pre_loop base k (frags @ [cand]) s3)"

definition preGenerateTemplates :: "pool_state \<Rightarrow> nat \<Rightarrow> jsstring list" where
  "preGenerateTemplates st n0 =
     (let n = max 50 (nz n0 100);
          base = templateFragments st;
          s = xorshift32_init (nz (meta_seedBase (meta st)) 4000)
      in pre_loop base (n - length base) base s)"

subsection \<open>\<open>generatePool\<close>\<close>

text \<open>The options objects built at lines 238 and 244.\<close>

definition slot_opts :: "gen_opts \<Rightarrow> int \<Rightarrow> int \<Rightarrow> jsstring list \<Rightarrow> gen_opts" where
  "slot_opts opts sz seedBase tf =
     \<lparr> o_size = Some sz, o_seedBase = Some seedBase,
       o_startTimestamp = o_startTimestamp opts, o_endTimestamp = o_endTimestamp opts,
       o_spanDays = o_spanDays opts, o_jitterMs = o_jitterMs opts,
       o_replyFraction = o_replyFraction opts,
       o_attachmentFraction = o_attachmentFraction opts,
       o_templates = Some tf, o_dedupeLRU = None, o_pageSize = None \<rparr>"

definition alt_opts :: "gen_opts \<Rightarrow> int \<Rightarrow> int \<Rightarrow> jsstring list \<Rightarrow> gen_opts" where
  "alt_opts opts sz seedBase tf =
     \<lparr> o_size = Some sz, o_seedBase = Some seedBase,
       o_startTimestamp = o_startTimestamp opts, o_endTimestamp = o_endTimestamp opts,
       o_spanDays = None, o_jitterMs = o_jitterMs opts,
       o_replyFraction = None, o_attachmentFraction = None,
       o_templates = Some tf, o_dedupeLRU = None, o_pageSize = None \<rparr>"

text \<open>
  Lines 242-250: the retry loop for slot \<open>i\<close>, entered with \<open>attempts\<close> retries made,
  the message \<open>m\<close> as patched so far and its hash \<open>h\<close>; \<open>ks\<close> is the LRU. Besides
  the message and its hash the model returns the value of the loop counter \<open>attempts\<close>
  at the exit, which the source drops.
\<close>

function dedupe ::
  "env \<Rightarrow> pool_state \<Rightarrow> int \<Rightarrow> gen_opts \<Rightarrow> int \<Rightarrow> int \<Rightarrow> nat \<Rightarrow> lru \<Rightarrow> nat \<Rightarrow> message \<Rightarrow> jsstring
     \<Rightarrow> js_error + message \<times> jsstring \<times> nat" where
  "dedupe e st now opts sz seedBase i ks attempts m h =
     (if lru_has ks h \<and> attempts < 8 then
        (case generateMessageForIndex e st now (i + attempts + 1)
                (alt_opts opts sz (seedBase + int attempts + 1) (templateFragments st)) of
           Inl err \<Rightarrow> Inl err
         | Inr alt \<Rightarrow>
             (case (if attempts mod 2 = 0 then
                      (case pickFrom e EMOJI (xorshift32_init (seedBase + int attempts + int i)) of
                         Inl err \<Rightarrow> Inl err
                       | Inr (em, s) \<Rightarrow> Inr (js '' '' @ em))
                    else Inr []) of
                Inl err \<Rightarrow> Inl err
              | Inr suffix \<Rightarrow>
                  (let m' = m\<lparr> msg_text := msg_text alt @ suffix,
                                msg_attachment :=
                                  (case msg_attachment m of
                                     Some a \<Rightarrow> Some a | None \<Rightarrow> msg_attachment alt),
                                msg_replyTo :=
                                  (case msg_replyTo m of
                                     Some r \<Rightarrow> Some r | None \<Rightarrow> msg_replyTo alt) \<rparr>
                   in dedupe e st now opts sz seedBase i ks (Suc attempts) m'
                        (contentHash (take 240 (msg_text m'))))))
      else Inr (m, h, attempts))"
  by pat_completeness auto
termination
  by (relation "measure (\<lambda>(e, st, now, opts, sz, seedBase, i, ks, attempts, m, h). 8 - attempts)")
    auto

declare dedupe.simps [simp del]

text \<open>
  Lines 237-253: the slots in the order of generation. \<open>clock i\<close> is what \<open>Date.now()\<close>
  returns while slot \<open>i\<close> is generated; \<open>arr\<close> is the array filled so far and
  \<open>tries\<close> the retries each of its slots took.
\<close>

fun fill_slots ::
  "env \<Rightarrow> (nat \<Rightarrow> int) \<Rightarrow> pool_state \<Rightarrow> gen_opts \<Rightarrow> int \<Rightarrow> int \<Rightarrow> nat \<Rightarrow> nat list \<Rightarrow> lru
     \<Rightarrow> message list \<Rightarrow> nat list \<Rightarrow> js_error + message list \<times> nat list" where
  "fill_slots e clock st opts sz seedBase cap [] ks arr tries = Inr (arr, tries)"
| "fill_slots e clock st opts sz seedBase cap (i # rest) ks arr tries =
     (case generateMessageForIndex e st (clock i) i
             (slot_opts opts sz seedBase (templateFragments st)) of
        Inl err \<Rightarrow> Inl err
      | Inr m \<Rightarrow>
          (case dedupe e st (clock i) opts sz seedBase i ks 0 m
                  (contentHash (take 240 (msg_text m))) of
             Inl err \<Rightarrow> Inl err
           | Inr (m', h, attempts) \<Rightarrow>
               fill_slots e clock st opts sz seedBase cap rest (lru_push cap ks h)
                 (arr @ [m']) (tries @ [attempts])))"

text \<open>
  Times are JavaScript numbers, that is doubles. An integer of magnitude up to \<open>2^53\<close>
  is a double; a sum that is larger is rounded to 53 significant bits, to the nearest
  double and to the even one of two equally near. \<open>dbl_exp n\<close> is the number of low
  bits that a natural number \<open>n\<close> loses, and \<open>to_double x\<close> the double that an integer
  \<open>x\<close> of magnitude below \<open>2^1024\<close> is rounded to.
\<close>

function dbl_exp :: "nat \<Rightarrow> nat" where
  "dbl_exp n = (if n < 2 ^ 53 then 0 else Suc (dbl_exp (n div 2)))"
  by pat_completeness auto
termination
  by (relation "measure id") auto

declare dbl_exp.simps [simp del]

definition to_double_nat :: "nat \<Rightarrow> nat" where
  "to_double_nat n =
     (let e = dbl_exp n; q = n div 2 ^ e; r = n mod 2 ^ e
      in if 2 ^ e < 2 * r \<or> (2 * r = 2 ^ e \<and> odd q) then (q + 1) * 2 ^ e else q * 2 ^ e)"

definition to_double :: "int \<Rightarrow> int" where
  "to_double x = (if x < 0 then - int (to_double_nat (nat (- x))) else int (to_double_nat (nat x)))"

text \<open>
  Lines 257-259: every item whose time is not after its predecessor's is given the sum
  of the predecessor's time and 1000, a double; \<open>prev\<close> is the time of the item before.
\<close>

fun bump_from :: "int \<Rightarrow> message list \<Rightarrow> message list" where
  "bump_from prev [] = []"
| "bump_from prev (m # ms) =
     (let m' = (if msg_time m \<le> prev then m\<lparr> msg_time := to_double (prev + 1000) \<rparr> else m)
      in m' # bump_from (msg_time m') ms)"

definition enforce_monotonic :: "message list \<Rightarrow> message list" where
  "enforce_monotonic arr = (case arr of [] \<Rightarrow> [] | m # ms \<Rightarrow> m # bump_from (msg_time m) ms)"

text \<open>
  Lines 220-232: the size and the seed are stored in \<open>meta\<close>, and the template bank
  is replaced by the caller's or grown to 200 fragments.
\<close>

definition pool_setup :: "gen_opts \<Rightarrow> pool_state \<Rightarrow> pool_state" where
  "pool_setup opts st =
     (let sz = clamp (truthy_or (o_size opts) (nz (meta_size (meta st)) 1000)) 10 200000;
          seedBase = truthy_or (o_seedBase opts) (nz (meta_seedBase (meta st)) 4000);
          st1 = st\<lparr> meta := (meta st)\<lparr> meta_size := sz, meta_seedBase := seedBase \<rparr> \<rparr>
      in case o_templates opts of
           Some ts \<Rightarrow> st1\<lparr> templateFragments := ts \<rparr>
         | None \<Rightarrow>
             if length (templateFragments st1) < 200 then
               st1\<lparr> templateFragments :=
                      preGenerateTemplates st1 (max 200 (length (templateFragments st1))) \<rparr>
             else st1)"

text \<open>
  Lines 234-253: the array \<open>arr\<close> as the loop leaves it, in the order of generation,
  with the retries each slot took.
\<close>

definition generated_slots ::
  "env \<Rightarrow> (nat \<Rightarrow> int) \<Rightarrow> gen_opts \<Rightarrow> pool_state \<Rightarrow> js_error + message list \<times> nat list" where
  "generated_slots e clock opts st =
     (let st2 = pool_setup opts st;
          sz = meta_size (meta st2)
      in fill_slots e clock st2 opts sz (meta_seedBase (meta st2))
           (makeLRU_cap (o_dedupeLRU opts)) [0..<nat sz] [] [] [])"

text \<open>
  Lines 219-269. The result is the new state of the object and either the exception
  that left the function or the returned array; \<open>Array.prototype.sort\<close> is stable, as
  \<open>sort_key\<close> is. (The id index, which no function modelled here reads, is left out.)
\<close>

definition generatePool ::
  "env \<Rightarrow> (nat \<Rightarrow> int) \<Rightarrow> gen_opts \<Rightarrow> pool_state \<Rightarrow> pool_state \<times> (js_error + message list)" where
  "generatePool e clock opts st =
     (let st2 = pool_setup opts st
      in case generated_slots e clock opts st of
           Inl err \<Rightarrow> (st2, Inl err)
         | Inr (arr, tries) \<Rightarrow>
             (let sorted = enforce_monotonic (sort_key msg_time arr)
              in (st2\<lparr> messages := sorted \<rparr>, Inr sorted)))"

subsection \<open>Accessors and the generator view\<close>

text \<open>Lines 287-293.\<close>

definition getRange :: "pool_state \<Rightarrow> nat \<Rightarrow> nat \<Rightarrow> message list" where
  "getRange st start count =
     (if messages st = [] then []
      else take (min (length (messages st)) (start + count) - start) (drop start (messages st)))"

text \<open>
  Lines 303-341. The view is made over the stored pool when there is one, and over the
  per-index generator otherwise; it keeps the page size and, in the second case, the
  options it was made with.
\<close>

datatype view = PoolView nat | GeneratorView nat gen_opts

definition createGeneratorView :: "gen_opts \<Rightarrow> pool_state \<Rightarrow> view" where
  "createGeneratorView opts st =
     (let pageSize = max 10 (truthy_or (o_pageSize opts) 200)
      in if messages st \<noteq> [] then PoolView pageSize else GeneratorView pageSize opts)"

definition view_opts :: "gen_opts \<Rightarrow> pool_state \<Rightarrow> gen_opts" where
  "view_opts opts st =
     \<lparr> o_size = Some (truthy_or (o_size opts) (meta_size (meta st))),
       o_seedBase = Some (truthy_or (o_seedBase opts) (meta_seedBase (meta st))),
       o_startTimestamp = o_startTimestamp opts, o_endTimestamp = o_endTimestamp opts,
       o_spanDays = o_spanDays opts, o_jitterMs = o_jitterMs opts,
       o_replyFraction = None, o_attachmentFraction = None,
       o_templates = Some (templateFragments st), o_dedupeLRU = None, o_pageSize = None \<rparr>"

text \<open>Lines 329-333: the loop over \<open>j\<close>, here over the indices \<open>start + j\<close>.\<close>

fun generate_page ::
  "env \<Rightarrow> (nat \<Rightarrow> int) \<Rightarrow> pool_state \<Rightarrow> gen_opts \<Rightarrow> nat list \<Rightarrow> message list
     \<Rightarrow> js_error + message list" where
  "generate_page e clock st vopts [] arr = Inr arr"
| "generate_page e clock st vopts (idx # rest) arr =
     (case generateMessageForIndex e st (clock idx) idx vopts of
        Inl err \<Rightarrow> Inl err
      | Inr m \<Rightarrow> generate_page e clock st vopts rest (arr @ [m]))"

fun nextPage ::
  "view \<Rightarrow> env \<Rightarrow> (nat \<Rightarrow> int) \<Rightarrow> pool_state \<Rightarrow> nat \<Rightarrow> js_error + message list" where
  "nextPage (PoolView pageSize) e clock st start = Inr (getRange st start pageSize)"
| "nextPage (GeneratorView pageSize opts) e clock st start =
     (case generate_page e clock st (view_opts opts st) (map (\<lambda>j. start + j) [0..<pageSize]) [] of
        Inl err \<Rightarrow> Inl err
      | Inr arr \<Rightarrow> Inr (sort_key msg_time arr))"

subsection \<open>Observations on a pool\<close>

text \<open>
  Line 241: the hash the dedup loop compares, \<open>contentHash((m.text||'').slice(0,240))\<close>,
  as a function of the message stored in a slot.
\<close>

definition slot_hash :: "message \<Rightarrow> jsstring" where
  "slot_hash m = contentHash (take 240 (msg_text m))"


text \<open>
  Lines 164-165: the options give both ends of the time window (\<open>opts.startTimestamp\<close>
  and \<open>opts.endTimestamp\<close> truthy), so that \<open>Date.now()\<close> is read but not used.
\<close>

definition explicit_window :: "gen_opts \<Rightarrow> bool" where
  "explicit_window opts =
     (case (o_startTimestamp opts, o_endTimestamp opts) of
        (Some a, Some b) \<Rightarrow> a \<noteq> 0 \<and> b \<noteq> 0
      | _ \<Rightarrow> False)"

subsection \<open>Example inputs\<close>

text \<open>
  A bank of sixteen short fragments, and the options
  \<open>{size: 10, seedBase: 163, spanDays: 1, templates: [...]}\<close>. With these options no
  index draws an emoji and no two texts collide, so that the run reaches no call of
  \<open>pickFrom\<close>.
\<close>

definition sample_templates :: "jsstring list" where
  "sample_templates =
     [js ''gm'', js ''gn'', js ''wen'', js ''lfg'', js ''hodl'', js ''dip'', js ''moon'', js ''rekt'',
      js ''long'', js ''short'', js ''pump'', js ''dump'', js ''ath'', js ''fud'', js ''wagmi'', js ''ngmi'']"

definition opts_span :: gen_opts where
  "opts_span =
     no_opts\<lparr> o_size := Some 10, o_seedBase := Some 163, o_spanDays := Some 1,
              o_templates := Some sample_templates \<rparr>"

text \<open>The same pool size and seed with both ends of the time window given.\<close>

definition opts_window :: gen_opts where
  "opts_window =
     no_opts\<lparr> o_size := Some 10, o_seedBase := Some 163,
              o_startTimestamp := Some 1700000000000, o_endTimestamp := Some 1700086400000 \<rparr>"

text \<open>
  The ten messages of that run in the order of generation, with the time left at 0: the
  time of a message is an offset from the clock.
\<close>

definition slots_163 :: "message list" where
  "slots_163 =
    [\<lparr> msg_id = js ''msg_1_69585651'', msg_name = js ''Member 1'',
       msg_displayName = js ''Member 1'', msg_role = js ''VERIFIED'',
       msg_avatar = [],
       msg_text = js ''long hodl'',
       msg_time = 0, msg_replyTo = None, msg_attachment = None \<rparr>,
     \<lparr> msg_id = js ''msg_2_96917'', msg_name = js ''Member 2'',
       msg_displayName = js ''Member 2'', msg_role = js ''VERIFIED'',
       msg_avatar = [],
       msg_text = js ''ath'',
       msg_time = 0, msg_replyTo = None, msg_attachment = None \<rparr>,
     \<lparr> msg_id = js ''msg_3_3302'', msg_name = js ''Member 3'',
       msg_displayName = js ''Member 3'', msg_role = js ''VERIFIED'',
       msg_avatar = [],
       msg_text = js ''gm'',
       msg_time = 0, msg_replyTo = None, msg_attachment = None \<rparr>,
     \<lparr> msg_id = js ''msg_4_3095028'', msg_name = js ''Member 4'',
       msg_displayName = js ''Member 4'', msg_role = js ''VERIFIED'',
       msg_avatar = [],
       msg_text = js ''dump'',
       msg_time = 0, msg_replyTo = None, msg_attachment = None \<rparr>,
     \<lparr> msg_id = js ''msg_5_3452520'', msg_name = js ''Member 5'',
       msg_displayName = js ''Member 5'', msg_role = js ''VERIFIED'',
       msg_avatar = [],
       msg_text = js ''pump'',
       msg_time = 0, msg_replyTo = None, msg_attachment = None \<rparr>,
     \<lparr> msg_id = js ''msg_6_99467'', msg_name = js ''Member 6'',
       msg_displayName = js ''Member 6'', msg_role = js ''VERIFIED'',
       msg_avatar = [],
       msg_text = js ''dip'',
       msg_time = 0, msg_replyTo = None, msg_attachment = None \<rparr>,
     \<lparr> msg_id = js ''msg_7_112891193'', msg_name = js ''Member 7'',
       msg_displayName = js ''Member 7'', msg_role = js ''VERIFIED'',
       msg_avatar = [],
       msg_text = js ''wagmi'',
       msg_time = 0, msg_replyTo = None, msg_attachment = None \<rparr>,
     \<lparr> msg_id = js ''msg_8_3496668'', msg_name = js ''Member 8'',
       msg_displayName = js ''Member 8'', msg_role = js ''VERIFIED'',
       msg_avatar = [],
       msg_text = js ''rekt'',
       msg_time = 0, msg_replyTo = None, msg_attachment = None \<rparr>,
     \<lparr> msg_id = js ''msg_9_3379477'', msg_name = js ''Member 9'',
       msg_displayName = js ''Member 9'', msg_role = js ''VERIFIED'',
       msg_avatar = [],
       msg_text = js ''ngmi'',
       msg_time = 0, msg_replyTo = None, msg_attachment = None \<rparr>,
     \<lparr> msg_id = js ''msg_10_3303'', msg_name = js ''Member 10'',
       msg_displayName = js ''Member 10'', msg_role = js ''VERIFIED'',
       msg_avatar = [],
       msg_text = js ''gn'',
       msg_time = 0, msg_replyTo = None, msg_attachment = None \<rparr>]"

text \<open>
  The options \<open>{size: 10, seedBase: 23606, startTimestamp: 1e19, endTimestamp: 1e19,
  jitterMs: 1, templates: [...]}\<close>, and the ten messages of that run in the order of
  generation. Every jitter of this run rounds to 0, so that every time is \<open>1e19\<close>, a
  double, in the code as in the model.
\<close>

definition opts_far :: gen_opts where
  "opts_far =
     no_opts\<lparr> o_size := Some 10, o_seedBase := Some 23606,
              o_startTimestamp := Some 10000000000000000000,
              o_endTimestamp := Some 10000000000000000000, o_jitterMs := Some 1,
              o_templates := Some sample_templates \<rparr>"

definition slots_far :: "message list" where
  "slots_far =
    [\<lparr> msg_id = js ''msg_1_107053'', msg_name = js ''Member 1'',
       msg_displayName = js ''Member 1'', msg_role = js ''VERIFIED'',
       msg_avatar = [],
       msg_text = js ''lfg'',
       msg_time = 10000000000000000000, msg_replyTo = None, msg_attachment = None \<rparr>,
     \<lparr> msg_id = js ''msg_2_3095028'', msg_name = js ''Member 2'',
       msg_displayName = js ''Member 2'', msg_role = js ''VERIFIED'',
       msg_avatar = [],
       msg_text = js ''dump'',
       msg_time = 10000000000000000000, msg_replyTo = None, msg_attachment = None \<rparr>,
     \<lparr> msg_id = js ''msg_3_109413500'', msg_name = js ''Member 3'',
       msg_displayName = js ''Member 3'', msg_role = js ''VERIFIED'',
       msg_avatar = [],
       msg_text = js ''short'',
       msg_time = 10000000000000000000, msg_replyTo = None, msg_attachment = None \<rparr>,
     \<lparr> msg_id = js ''msg_4_3357441'', msg_name = js ''Member 4'',
       msg_displayName = js ''Member 4'', msg_role = js ''VERIFIED'',
       msg_avatar = [],
       msg_text = js ''moon'',
       msg_time = 10000000000000000000, msg_replyTo = None, msg_attachment = None \<rparr>,
     \<lparr> msg_id = js ''msg_5_112891193'', msg_name = js ''Member 5'',
       msg_displayName = js ''Member 5'', msg_role = js ''VERIFIED'',
       msg_avatar = [],
       msg_text = js ''wagmi'',
       msg_time = 10000000000000000000, msg_replyTo = None, msg_attachment = None \<rparr>,
     \<lparr> msg_id = js ''msg_6_2723901126'', msg_name = js ''Member 6'',
       msg_displayName = js ''Member 6'', msg_role = js ''VERIFIED'',
       msg_avatar = [],
       msg_text = js ''rekt lfg '' @ [8212] @ js '' $396.07'',
       msg_time = 10000000000000000000, msg_replyTo = None, msg_attachment = None \<rparr>,
     \<lparr> msg_id = js ''msg_7_3774075242'', msg_name = js ''Member 7'',
       msg_displayName = js ''Member 7'', msg_role = js ''VERIFIED'',
       msg_avatar = [],
       msg_text = js ''fud ath'',
       msg_time = 10000000000000000000, msg_replyTo = None, msg_attachment = None \<rparr>,
     \<lparr> msg_id = js ''msg_8_102395'', msg_name = js ''Member 8'',
       msg_displayName = js ''Member 8'', msg_role = js ''VERIFIED'',
       msg_avatar = [],
       msg_text = js ''gm!'',
       msg_time = 10000000000000000000, msg_replyTo = None, msg_attachment = None \<rparr>,
     \<lparr> msg_id = js ''msg_9_96917'', msg_name = js ''Member 9'',
       msg_displayName = js ''Member 9'', msg_role = js ''VERIFIED'',
       msg_avatar = [],
       msg_text = js ''ath'',
       msg_time = 10000000000000000000, msg_replyTo = None, msg_attachment = None \<rparr>,
     \<lparr> msg_id = js ''msg_10_2009711610'', msg_name = js ''Member 10'',
       msg_displayName = js ''Member 10'', msg_role = js ''VERIFIED'',
       msg_avatar = [],
       msg_text = js ''dump...'',
       msg_time = 10000000000000000000, msg_replyTo = None, msg_attachment = None \<rparr>]"

text \<open>
  The helper \<open>pickFrom\<close> of synthetic-people.js (lines 35-38), local to that file. An
  environment that binds the global name to it shows what the retry loop does when the
  call returns; \<open>null\<close> prints as \<open>null\<close> in a concatenation.
\<close>

definition pickFrom_people :: "jsstring list \<Rightarrow> u32 \<Rightarrow> jsstring \<times> u32" where
  "pickFrom_people arr s =
     (if arr = [] then (js ''null'', s)
      else (let s1 = xorshift32_next s in (arr ! rnd_index s1 (length arr), s1)))"

definition env_with_pickFrom :: env where
  "env_with_pickFrom =
     \<lparr> sampleMembers = [], people = [], global_pickFrom = Some pickFrom_people \<rparr>"





section \<open>SyntheticPeople (synthetic-people.js)\<close>

text \<open>
  A JavaScript number as \<open>generatePool\<close> can receive it for \<open>size\<close>: a finite value
  (every double is a rational), \<open>NaN\<close> or an infinity.
\<close>

datatype jsnum = Num rat | NaN | PosInf | NegInf

text \<open>\<open>a || b\<close> on numbers: \<open>undefined\<close>, \<open>0\<close> and \<open>NaN\<close> are falsy.\<close>

definition num_truthy :: "jsnum \<Rightarrow> bool" where
  "num_truthy v = (case v of Num r \<Rightarrow> r \<noteq> 0 | NaN \<Rightarrow> False | PosInf \<Rightarrow> True | NegInf \<Rightarrow> True)"

definition num_or :: "jsnum option \<Rightarrow> jsnum \<Rightarrow> jsnum" where
  "num_or v d = (case v of None \<Rightarrow> d | Some x \<Rightarrow> if num_truthy x then x else d)"

text \<open>
  \<open>clamp(v, a, b) = Math.max(a, Math.min(b, v))\<close> (line 21) for finite bounds;
  \<open>Math.min\<close> and \<open>Math.max\<close> return \<open>NaN\<close> when an argument is \<open>NaN\<close>.
\<close>

definition clamp_num :: "jsnum \<Rightarrow> rat \<Rightarrow> rat \<Rightarrow> jsnum" where
  "clamp_num v a b =
     (case v of
        Num r \<Rightarrow> Num (max a (min b r))
      | NaN \<Rightarrow> NaN
      | PosInf \<Rightarrow> Num (max a b)
      | NegInf \<Rightarrow> Num a)"

text \<open>
  The number of turns of \<open>for (let i = 0; i < size; i++)\<close>: the integers from 0 that
  are below \<open>size\<close>; a comparison with \<open>NaN\<close> is false.
\<close>

definition loop_count :: "jsnum \<Rightarrow> nat" where
  "loop_count v = (case v of Num r \<Rightarrow> nat \<lceil>r\<rceil> | NaN \<Rightarrow> 0 | PosInf \<Rightarrow> 0 | NegInf \<Rightarrow> 0)"

text \<open>The finite value of a number (only used on clamped sizes).\<close>

definition num_value :: "jsnum \<Rightarrow> rat" where
  "num_value v = (case v of Num r \<Rightarrow> r | NaN \<Rightarrow> 0 | PosInf \<Rightarrow> 0 | NegInf \<Rightarrow> 0)"

datatype role = NONE | VERIFIED | MOD | ADMIN | YOU

text \<open>
  A generated person, as far as its role goes. The other fields of the object (\<open>id\<close>,
  \<open>name\<close>, \<open>displayName\<close>, \<open>avatar\<close>, \<open>lastActive\<close>, \<open>country\<close>) are computed after
  the role and do not feed back into it.
\<close>

record person =
  p_role :: role
  p_verified :: bool

record people_opts =
  po_size :: "jsnum option"
  po_seedBase :: "int option"

record people_meta =
  pm_size :: jsnum
  pm_seedBase :: int


text \<open>
  \<open>makeDisplayName\<close> (lines 171-206), reduced to the state in which it leaves the
  generator it is given: the role is drawn from the same generator afterwards. The two
  name tables are not empty, so \<open>pickFrom\<close> draws once and the alternatives after
  \<open>||\<close> are not evaluated. \<open>coin\<close> is the outcome of \<open>Math.random() < 0.5\<close> at line
  184, which decides whether one more number is drawn.
\<close>

definition makeDisplayName_state :: "bool \<Rightarrow> u32 \<Rightarrow> u32" where
  "makeDisplayName_state coin s0 =
     (let s1 = xorshift32_next s0;
          s2 = xorshift32_next s1;
          s3 = xorshift32_next s2;
          p = rnd_value s3;
          s4 = (if p < 6 / 100 then s3
                else if p < 12 / 100 then s3
                else if p < 25 / 100 then
                  (let t1 = xorshift32_next s3
                   in if rnd_value t1 < 15 / 100 then
                        (if coin then t1 else xorshift32_next t1)
                      else t1)
                else s3);
          s5 = xorshift32_next s4;
          s6 = (if rnd_value s5 < 12 / 100 then xorshift32_next (xorshift32_next s5) else s5);
          s7 = xorshift32_next s6;
          s8 = (if rnd_value s7 < 7 / 100 then xorshift32_next s7 else s7);
          s9 = xorshift32_next s8;
          s10 = (if rnd_value s9 < 5 / 100 then xorshift32_next s9 else s9)
      in s10)"

text \<open>
  Lines 234-235: \<open>count\<close> draws of \<open>Math.floor(rnd() * size)\<close>, added to a set. The
  model keeps the drawn indices in a list and returns the generator's state.
\<close>

fun sample_indices :: "rat \<Rightarrow> nat \<Rightarrow> u32 \<Rightarrow> nat list \<times> u32" where
  "sample_indices sz 0 s = ([], s)"
| "sample_indices sz (Suc k) s =
     (let s1 = xorshift32_next s;
          (rest, s2) = sample_indices sz k s1
      in (nat \<lfloor>rnd_value s1 * sz\<rfloor> # rest, s2))"

text \<open>Lines 241-244: the role and the \<open>verified\<close> flag of person \<open>i\<close>.\<close>

definition person_at :: "int \<Rightarrow> (nat \<Rightarrow> bool) \<Rightarrow> nat list \<Rightarrow> nat list \<Rightarrow> nat \<Rightarrow> person" where
  "person_at seedBase coin adminIndices modIndices i =
     (let subRnd = xorshift32_init (seedBase + int i * 137);
          s1 = makeDisplayName_state (coin i) subRnd;
          r = (if i \<in> set adminIndices then ADMIN
               else if i \<in> set modIndices then MOD
               else if rnd_value (xorshift32_next s1) < 1 / 100 then MOD
               else VERIFIED)
      in \<lparr> p_role = r,
           p_verified = (r = VERIFIED \<or> r = YOU \<or> r = ADMIN \<or> r = MOD) \<rparr>)"

text \<open>
  \<open>SyntheticPeople.generatePool\<close> (lines 214-278): the new \<open>meta\<close> and the array of
  people. \<open>Math.round(size * 0.004)\<close> and \<open>Math.round(size * 0.03)\<close> are taken on the
  exact products.
\<close>

definition people_generatePool ::
  "(nat \<Rightarrow> bool) \<Rightarrow> people_opts \<Rightarrow> people_meta \<Rightarrow> people_meta \<times> person list" where
  "people_generatePool coin opts m =
     (let sz = clamp_num (num_or (po_size opts) (num_or (Some (pm_size m)) (Num 1000))) 10 20000;
          seedBase = truthy_or (po_seedBase opts) (nz (pm_seedBase m) 2026);
          rnd = xorshift32_init seedBase;
          adminCount = max 1 (js_round (num_value sz * (4 / 1000)));
          modCount = max 1 (js_round (num_value sz * (3 / 100)));
          (adminIndices, rnd1) = sample_indices (num_value sz) (nat adminCount) rnd;
          (modIndices, rnd2) = sample_indices (num_value sz) (nat modCount) rnd1
      in (\<lparr> pm_size = sz, pm_seedBase = seedBase \<rparr>,
          map (person_at seedBase coin adminIndices modIndices) [0..<loop_count sz]))"

section \<open>PresenceManager (presence-manager.js)\<close>

text \<open>
  \<open>state.rnd\<close> is \<open>Math.random\<close> or a seeded \<open>xorshift32\<close> closure. Either way it
  is a source of numbers read one after the other: the model keeps the whole sequence
  and the position of the next number, and proves its properties for every sequence.
\<close>

record rnd_source =
  draws :: "nat \<Rightarrow> rat"
  pos :: nat

definition rnd_read :: "rnd_source \<Rightarrow> rat \<times> rnd_source" where
  "rnd_read r = (draws r (pos r), r\<lparr> pos := Suc (pos r) \<rparr>)"

definition seeded_source :: "int \<Rightarrow> rnd_source" where
  "seeded_source seed = \<lparr> draws = xorshift32_seq seed, pos = 0 \<rparr>"

text \<open>The options of lines 8-16 that the count depends on.\<close>

record presence_opts =
  baselineOnline :: int
  minOnline :: int
  maxOnline :: int
  nudgePercent :: rat
  jitterMs :: int

definition presence_defaults :: presence_opts where
  "presence_defaults =
     \<lparr> baselineOnline = 76, minOnline = 60, maxOnline = 250, nudgePercent = 2 / 100,
       jitterMs = 90 * 1000 \<rparr>"

text \<open>
  The manager's state: its options, its random source, and the member list that
  \<open>getMemberList\<close> returns, as the \<open>lastActive\<close> time of each member (0 when the
  field is missing: \<open>p.lastActive || 0\<close>). \<open>shown\<close> is the number last written to
  the \<open>onlineCount\<close> element.
\<close>

record presence_state =
  popts :: presence_opts
  prnd :: rnd_source
  lastActive :: "int list"
  shown :: "int option"

text \<open>
  Lines 39-50. \<open>now\<close> is the reading of \<open>Date.now()\<close>; the functions below run to
  completion without yielding, and the model gives the clock one value per call of
  \<open>tick\<close> or \<open>updateUICounts\<close>.
\<close>

definition computeRealOnline :: "presence_opts \<Rightarrow> int \<Rightarrow> int list \<Rightarrow> int" where
  "computeRealOnline cfg now l = int (length (filter (\<lambda>la. now - la < jitterMs cfg) l))"

text \<open>
  Lines 61-70: the loop of \<open>nudgeToBaseline\<close>, with the indices chosen so far and the
  attempts made; every turn makes one more attempt, and the loop stops at
  \<open>toNudge * 8\<close> attempts at the latest.
\<close>

function nudge_loop ::
  "presence_opts \<Rightarrow> int \<Rightarrow> int \<Rightarrow> nat list \<Rightarrow> nat \<Rightarrow> int list \<Rightarrow> rnd_source
     \<Rightarrow> nat list \<times> int list \<times> rnd_source" where
  "nudge_loop cfg now toNudge chosen attempts l r =
     (if int (length chosen) < toNudge \<and> int attempts < toNudge * 8 then
        (let (x, r1) = rnd_read r;
             idx = \<lfloor>x * of_nat (length l)\<rfloor>
         in if idx < 0 \<or> int (length l) \<le> idx then
              nudge_loop cfg now toNudge chosen (Suc attempts) l r1
            else if now - l ! nat idx < jitterMs cfg then
              nudge_loop cfg now toNudge chosen (Suc attempts) l r1
            else
              (let (y, r2) = rnd_read r1;
                   l' = l[nat idx := now - \<lfloor>(y * (8 / 10) + 1 / 10) * 60 * 1000\<rfloor>]
               in nudge_loop cfg now toNudge (List.insert (nat idx) chosen) (Suc attempts) l' r2))
      else (chosen, l, r))"
  by pat_completeness auto
termination
  by (relation "measure (\<lambda>(cfg, now, toNudge, chosen, attempts, l, r). nat (toNudge * 8 - int attempts))")
    (auto simp: rnd_read_def)

declare nudge_loop.simps [simp del]

text \<open>Lines 53-72.\<close>

definition nudgeToBaseline ::
  "presence_opts \<Rightarrow> int \<Rightarrow> int \<Rightarrow> int list \<Rightarrow> rnd_source \<Rightarrow> int \<times> int list \<times> rnd_source" where
  "nudgeToBaseline cfg now need l r =
     (if l = [] \<or> need \<le> 0 then (0, l, r)
      else
        (let toNudge = min need (max 1 (js_round (nudgePercent cfg * of_nat (length l))));
             (chosen, l', r') = nudge_loop cfg now toNudge [] 0 l r
         in (int (length chosen), l', r')))"

text \<open>Lines 75-90: \<open>decaySomeToIdle\<close>, the loop over the members from index \<open>i\<close>.\<close>

function decay_loop ::
  "presence_opts \<Rightarrow> int \<Rightarrow> int \<Rightarrow> nat \<Rightarrow> int \<Rightarrow> int list \<Rightarrow> rnd_source
     \<Rightarrow> int \<times> int list \<times> rnd_source" where
  "decay_loop cfg now excess i decayed l r =
     (if i < length l \<and> decayed < excess then
        (if now - l ! i < jitterMs cfg then
           (let (x, r1) = rnd_read r
            in if x < 1 / 2 then
                 (let (y, r2) = rnd_read r1;
                      l' = l[i := now - 5 * 60 * 1000 - js_round (y * 25 * 60 * 1000)]
                  in decay_loop cfg now excess (Suc i) (decayed + 1) l' r2)
               else decay_loop cfg now excess (Suc i) decayed l r1)
         else decay_loop cfg now excess (Suc i) decayed l r)
      else (decayed, l, r))"
  by pat_completeness auto
termination
  by (relation "measure (\<lambda>(cfg, now, excess, i, decayed, l, r). length l - i)")
    (auto simp: rnd_read_def)

declare decay_loop.simps [simp del]

definition decaySomeToIdle ::
  "presence_opts \<Rightarrow> int \<Rightarrow> int \<Rightarrow> int list \<Rightarrow> rnd_source \<Rightarrow> int \<times> int list \<times> rnd_source" where
  "decaySomeToIdle cfg now excess l r =
     (if l = [] \<or> excess \<le> 0 then (0, l, r) else decay_loop cfg now excess 0 0 l r)"

text \<open>Lines 93-103: the count, and the state the nudges leave.\<close>

definition computeVisibleOnline :: "int \<Rightarrow> presence_state \<Rightarrow> int \<times> presence_state" where
  "computeVisibleOnline now s =
     (let cfg = popts s;
          visible = computeRealOnline cfg now (lastActive s);
          (visible1, s1) =
            (if visible < baselineOnline cfg then
               (let (nudged, l', r') =
                      nudgeToBaseline cfg now (baselineOnline cfg - visible) (lastActive s) (prnd s)
                in (visible + nudged, s\<lparr> lastActive := l', prnd := r' \<rparr>))
             else (visible, s))
      in (max (minOnline cfg) (min (maxOnline cfg) visible1), s1))"

text \<open>
  Lines 106-119, for a page that has the \<open>onlineCount\<close> element: the number written
  to it.
\<close>

definition updateUICounts :: "int \<Rightarrow> presence_state \<Rightarrow> presence_state" where
  "updateUICounts now s =
     (let (visible, s1) = computeVisibleOnline now s;
          (x, r1) = rnd_read (prnd s1);
          jitter = js_round ((x - 1 / 2) * 12);
          cfg = popts s1;
          visible' = max (minOnline cfg) (min (maxOnline cfg) (visible + jitter))
      in s1\<lparr> prnd := r1, shown := Some visible' \<rparr>)"

text \<open>
  Lines 122-137: one tick. The delegated step \<open>SyntheticPeople.simulatePresenceStep\<close>
  moves some \<open>lastActive\<close> times; \<open>stepped\<close> is the member list it leaves.
\<close>

definition tick :: "int \<Rightarrow> int list \<Rightarrow> presence_state \<Rightarrow> presence_state" where
  "tick now stepped s =
     (let cfg = popts s;
          s0 = s\<lparr> lastActive := stepped \<rparr>;
          real = computeRealOnline cfg now stepped;
          s1 = (if real < baselineOnline cfg then
                  (let (n, l', r') = nudgeToBaseline cfg now (baselineOnline cfg - real) stepped (prnd s0)
                   in s0\<lparr> lastActive := l', prnd := r' \<rparr>)
                else if real > maxOnline cfg then
                  (let (n, l', r') = decaySomeToIdle cfg now (real - maxOnline cfg) stepped (prnd s0)
                   in s0\<lparr> lastActive := l', prnd := r' \<rparr>)
                else s0)
      in updateUICounts now s1)"

text \<open>
  A run of the manager: each element is the clock reading of a tick and the member
  list the delegated step left before it; the result collects the counts displayed.
\<close>

fun run_ticks :: "(int \<times> int list) list \<Rightarrow> presence_state \<Rightarrow> int option list" where
  "run_ticks [] s = []"
| "run_ticks ((now, stepped) # rest) s =
     (let s' = tick now stepped s in shown s' # run_ticks rest s')"

text \<open>\<open>configure\<close> (lines 141-148) merges the caller's options without checking them.\<close>

definition presence_configure :: "presence_opts \<Rightarrow> presence_state \<Rightarrow> presence_state" where
  "presence_configure cfg s = s\<lparr> popts := cfg \<rparr>"

text \<open>
  The state of lines 24-29 (the default options, \<open>rnd\<close> as given) on a page with no
  members.
\<close>

definition presence_initial :: "rnd_source \<Rightarrow> presence_state" where
  "presence_initial r = \<lparr> popts = presence_defaults, prnd = r, lastActive = [], shown = None \<rparr>"

section \<open>TypingEngine (typing-engine.js)\<close>

text \<open>
  The browser's timer table, as far as one script's timers go: \<open>setTimeout\<close> returns
  a fresh handle (a positive integer) and enters it with the time it is due;
  \<open>clearTimeout\<close> removes a handle; the event loop runs the callback of a pending
  handle once its time has come, and removes it.
\<close>

record timer_table =
  next_handle :: nat
  pending :: "(nat \<times> int) list"

definition setTimeout :: "int \<Rightarrow> int \<Rightarrow> timer_table \<Rightarrow> nat \<times> timer_table" where
  "setTimeout now delay t =
     (next_handle t,
      \<lparr> next_handle = Suc (next_handle t),
        pending = pending t @ [(next_handle t, now + max 0 delay)] \<rparr>)"

definition clearTimeout :: "nat \<Rightarrow> timer_table \<Rightarrow> timer_table" where
  "clearTimeout h t = t\<lparr> pending := filter (\<lambda>(k, due). k \<noteq> h) (pending t) \<rparr>"

definition is_due :: "nat \<Rightarrow> int \<Rightarrow> timer_table \<Rightarrow> bool" where
  "is_due h now t = (\<exists>due. (h, due) \<in> set (pending t) \<and> due \<le> now)"

text \<open>The configuration of lines 39-46.\<close>

record typing_cfg =
  minDurationMs :: int
  maxNames :: nat
  autoDurationPerNameMs :: int
  autoDurationMinMs :: int
  autoDurationMaxMs :: int

definition typing_defaults :: typing_cfg where
  "typing_defaults =
     \<lparr> minDurationMs = 300, maxNames = 6, autoDurationPerNameMs = 900,
       autoDurationMinMs = 700, autoDurationMaxMs = 6000 \<rparr>"

text \<open>
  The engine's variables (\<open>cfg\<close>, \<open>rnd\<close>, \<open>active\<close>, \<open>clearTimer\<close>), the timer
  table, and the name list last handed to the display (\<open>[]\<close> clears it).
\<close>

record typing_state =
  tcfg :: typing_cfg
  trnd :: rnd_source
  active :: bool
  clearTimer :: "nat option"
  timers :: timer_table
  displayed :: "jsstring list"

definition typing_initial :: "rnd_source \<Rightarrow> typing_state" where
  "typing_initial r =
     \<lparr> tcfg = typing_defaults, trnd = r, active = False, clearTimer = None,
       timers = \<lparr> next_handle = 1, pending = [] \<rparr>, displayed = [] \<rparr>"

text \<open>
  Lines 141-144 and 151-154: \<open>n\<close> picks from a member list. \<open>sel\<close> says what a
  pick pushes: the first branch pushes \<open>displayName\<close> when it is not empty, the
  second always pushes \<open>displayName || name\<close>.
\<close>

fun sample_names ::
  "(member \<Rightarrow> jsstring option) \<Rightarrow> member list \<Rightarrow> nat \<Rightarrow> rnd_source
     \<Rightarrow> jsstring list \<times> rnd_source" where
  "sample_names sel ms 0 r = ([], r)"
| "sample_names sel ms (Suc n) r =
     (let (x, r1) = rnd_read r;
          idx = \<lfloor>x * of_nat (length ms)\<rfloor>;
          picked = (if 0 \<le> idx \<and> idx < int (length ms) then
                      (case sel (ms ! nat idx) of Some nm \<Rightarrow> [nm] | None \<Rightarrow> [])
                    else []);
          (rest, r2) = sample_names sel ms n r1
      in (picked @ rest, r2))"

text \<open>Lines 139 and 149: how many names to pick.\<close>

definition pick_count :: "typing_cfg \<Rightarrow> member list \<Rightarrow> rnd_source \<Rightarrow> nat \<times> rnd_source" where
  "pick_count c ms r =
     (let (x, r1) = rnd_read r
      in (min (maxNames c) (nat (max 1 (\<lfloor>x * of_nat (min 4 (length ms))\<rfloor> + 1))), r1))"

text \<open>
  Lines 132-166: the names to show. \<open>names\<close> is the caller's array (\<open>[]\<close> when the
  argument is missing); empty strings are dropped.
\<close>

definition resolve_names ::
  "typing_cfg \<Rightarrow> env \<Rightarrow> jsstring list \<Rightarrow> rnd_source \<Rightarrow> jsstring list \<times> rnd_source" where
  "resolve_names c e names r =
     (let provided = filter (\<lambda>n. n \<noteq> []) names;
          (p1, r1) =
            (if provided = [] \<and> sampleMembers e \<noteq> [] then
               (let (k, ra) = pick_count c (sampleMembers e) r;
                    (pick, rb) =
                      sample_names
                        (\<lambda>m. if m_displayName m \<noteq> [] then Some (m_displayName m) else None)
                        (sampleMembers e) k ra
                in (if pick \<noteq> [] then pick else provided, rb))
             else (provided, r));
          (p2, r2) =
            (if p1 = [] \<and> people e \<noteq> [] then
               (let (k, ra) = pick_count c (people e) r1;
                    (pick, rb) =
                      sample_names (\<lambda>m. Some (or_str (m_displayName m) (m_name m))) (people e) k ra
                in (if pick \<noteq> [] then pick else p1, rb))
             else (p1, r1));
          p3 = (if p2 = [] then [js ''Someone''] else p2)
      in (take (maxNames c) p3, r2))"

text \<open>Lines 169-176: the duration; \<open>None\<close> is a duration that is not a number.\<close>

definition typing_duration :: "typing_cfg \<Rightarrow> nat \<Rightarrow> int option \<Rightarrow> int" where
  "typing_duration c n durationMs =
     (case durationMs of
        Some d \<Rightarrow> max (minDurationMs c) d
      | None \<Rightarrow>
          clamp (int n * autoDurationPerNameMs c) (autoDurationMinMs c) (autoDurationMaxMs c))"

text \<open>
  \<open>triggerTyping\<close> (lines 130-191) at clock reading \<open>now\<close>: the pending expiry timer,
  if any, is cleared before the new one is armed.
\<close>

definition triggerTyping ::
  "env \<Rightarrow> int \<Rightarrow> jsstring list \<Rightarrow> int option \<Rightarrow> typing_state \<Rightarrow> typing_state" where
  "triggerTyping e now names durationMs s =
     (let (provided, r1) = resolve_names (tcfg s) e names (trnd s);
          dur = typing_duration (tcfg s) (length provided) durationMs;
          t1 = (case clearTimer s of Some h \<Rightarrow> clearTimeout h (timers s) | None \<Rightarrow> timers s);
          (h', t2) = setTimeout now dur t1
      in s\<lparr> trnd := r1, active := True, displayed := provided, clearTimer := Some h',
             timers := t2 \<rparr>)"

text \<open>\<open>clearTypingUI\<close> (lines 91-107).\<close>

definition clearTypingUI :: "typing_state \<Rightarrow> typing_state" where
  "clearTypingUI s = s\<lparr> displayed := [], active := False \<rparr>"

text \<open>\<open>clear\<close> (lines 193-199).\<close>

definition typing_clear :: "typing_state \<Rightarrow> typing_state" where
  "typing_clear s =
     clearTypingUI
       (case clearTimer s of
          Some h \<Rightarrow> s\<lparr> timers := clearTimeout h (timers s), clearTimer := None \<rparr>
        | None \<Rightarrow> s)"

text \<open>
  The event loop runs the expiry callback of lines 187-190 for handle \<open>h\<close>: possible
  only while the handle is pending and due; otherwise nothing happens.
\<close>

definition typing_fire :: "nat \<Rightarrow> int \<Rightarrow> typing_state \<Rightarrow> typing_state" where
  "typing_fire h now s =
     (if is_due h now (timers s) then
        (clearTypingUI (s\<lparr> timers := clearTimeout h (timers s) \<rparr>))\<lparr> clearTimer := None \<rparr>
      else s)"

text \<open>\<open>isActive\<close> (lines 201-203).\<close>

definition isActive :: "typing_state \<Rightarrow> bool" where
  "isActive s = active s"

text \<open>What can happen to the engine, each with the clock reading at which it happens.\<close>

datatype typing_event =
    Trigger int "jsstring list" "int option"
  | Clear
  | Fire nat int

fun typing_step :: "env \<Rightarrow> typing_event \<Rightarrow> typing_state \<Rightarrow> typing_state" where
  "typing_step e (Trigger now names durationMs) s = triggerTyping e now names durationMs s"
| "typing_step e Clear s = typing_clear s"
| "typing_step e (Fire h now) s = typing_fire h now s"

definition typing_run :: "env \<Rightarrow> typing_event list \<Rightarrow> typing_state \<Rightarrow> typing_state" where
  "typing_run e evs s = foldl (\<lambda>st ev. typing_step e ev st) s evs"

text \<open>
  Two predicates on the engine's state. \<open>session_inv\<close>: the pending timers are exactly
  the one whose handle \<open>clearTimer\<close> holds, if any. \<open>spent h\<close>: the handle \<open>h\<close> was
  given out before and is not pending.
\<close>

definition session_inv :: "typing_state \<Rightarrow> bool" where
  "session_inv s =
     (case clearTimer s of
        None \<Rightarrow> pending (timers s) = []
      | Some h \<Rightarrow> (\<exists>due. pending (timers s) = [(h, due)]) \<and> h < next_handle (timers s))"

definition spent :: "nat \<Rightarrow> typing_state \<Rightarrow> bool" where
  "spent h s = (h < next_handle (timers s) \<and> h \<notin> fst ` set (pending (timers s)))"

section \<open>SimulationEngine (stimulation-engine.js)\<close>

text \<open>
  The callbacks the engine and the pool's streaming helper hand to \<open>setTimeout\<close>:
  the manual stream's \<open>emitNext\<close>, the streaming helper's \<open>emitOne\<close>, and the
  delayed \<open>renderMessage(m, true)\<close> of a message whose typing is being simulated.
\<close>

datatype callback = EmitNext | EmitOne | Render message

text \<open>The timers of the page that belong to the engine: handle, due time, callback.\<close>

record sim_timers =
  sim_next_handle :: nat
  sim_pending :: "(nat \<times> int \<times> callback) list"

definition sim_setTimeout :: "int \<Rightarrow> int \<Rightarrow> callback \<Rightarrow> sim_timers \<Rightarrow> nat \<times> sim_timers" where
  "sim_setTimeout now delay cb t =
     (sim_next_handle t,
      \<lparr> sim_next_handle = Suc (sim_next_handle t),
        sim_pending = sim_pending t @ [(sim_next_handle t, now + max 0 delay, cb)] \<rparr>)"

definition sim_clearTimeout :: "nat \<Rightarrow> sim_timers \<Rightarrow> sim_timers" where
  "sim_clearTimeout h t = t\<lparr> sim_pending := filter (\<lambda>(k, due, cb). k \<noteq> h) (sim_pending t) \<rparr>"

text \<open>The configuration of lines 29-41 that the functions below read.\<close>

record sim_cfg =
  useStreamAPI :: bool
  simulateTypingBeforeSend :: bool
  ratePerMin :: int
  jitterFraction :: rat
  typingMinMs :: int
  typingMaxMs :: int
  typingPerCharMs :: int
  simulateTypingFraction :: rat

definition sim_defaults :: sim_cfg where
  "sim_defaults =
     \<lparr> useStreamAPI = True, simulateTypingBeforeSend = True, ratePerMin = 45,
       jitterFraction = 25 / 100, typingMinMs = 300, typingMaxMs = 1800,
       typingPerCharMs = 45, simulateTypingFraction = 75 / 100 \<rparr>"

text \<open>
  The object \<open>streamToUI\<close> returns (message-pool.js, lines 345-380): its \<open>stopped\<close>
  flag, the handle of its pending timer and its index.
\<close>

record streamer =
  stopped :: bool
  timerId :: "nat option"
  stream_idx :: nat

text \<open>
  The engine's variables, its timers, and what it did to the page: the messages handed
  to \<open>renderMessage\<close>, in order. \<open>rnd\<close> is the source \<open>deterministicRnd\<close> (or
  \<open>Math.random\<close>) reads from.
\<close>

record sim_state =
  scfg :: sim_cfg
  running :: bool
  timer :: "nat option"
  pageIdx :: nat
  currentStreamer :: "streamer option"
  srnd :: rnd_source
  stimers :: sim_timers
  rendered :: "message list"

definition sim_initial :: "rnd_source \<Rightarrow> sim_state" where
  "sim_initial r =
     \<lparr> scfg = sim_defaults, running = False, timer = None, pageIdx = 0,
       currentStreamer = None, srnd = r,
       stimers = \<lparr> sim_next_handle = 1, sim_pending = [] \<rparr>, rendered = [] \<rparr>"

text \<open>Lines 84-89.\<close>

definition computeTypingDurationForMessage :: "sim_cfg \<Rightarrow> message \<Rightarrow> int" where
  "computeTypingDurationForMessage c m =
     (if msg_text m = [] then typingMinMs c
      else clamp (int (length (msg_text m)) * typingPerCharMs c) (typingMinMs c) (typingMaxMs c))"

text \<open>
  \<open>stop\<close> of the streaming helper's handle (line 378) and of the engine (lines
  243-248): the engine clears the timer whose handle it keeps in \<open>timer\<close> and stops
  the streamer it keeps in \<open>currentStreamer\<close>.
\<close>

definition streamer_stop :: "streamer \<Rightarrow> sim_timers \<Rightarrow> sim_timers" where
  "streamer_stop st t = (case timerId st of Some h \<Rightarrow> sim_clearTimeout h t | None \<Rightarrow> t)"

definition sim_stop :: "sim_state \<Rightarrow> sim_state" where
  "sim_stop s =
     (let s1 = s\<lparr> running := False \<rparr>;
          s2 = (case timer s1 of
                  Some h \<Rightarrow> s1\<lparr> stimers := sim_clearTimeout h (stimers s1), timer := None \<rparr>
                | None \<Rightarrow> s1)
      in case currentStreamer s2 of
           Some st \<Rightarrow> s2\<lparr> stimers := streamer_stop st (stimers s2), currentStreamer := None \<rparr>
         | None \<Rightarrow> s2)"

text \<open>
  \<open>triggerOnce\<close> (lines 253-280) at clock reading \<open>now\<close>. \<open>view_get\<close> is what the
  pool's view returns for an index (\<open>None\<close>: \<open>null\<close>). The typing indicator it
  triggers belongs to the typing engine and is not part of this state. The handle of
  the delayed render is not kept.
\<close>

definition triggerOnce ::
  "(nat \<Rightarrow> message option) \<Rightarrow> int \<Rightarrow> sim_state \<Rightarrow> sim_state \<times> message option" where
  "triggerOnce view_get now s =
     (case view_get (pageIdx s) of
        None \<Rightarrow> (s, None)
      | Some m \<Rightarrow>
          (let s1 = s\<lparr> pageIdx := Suc (pageIdx s) \<rparr>;
               (x, r1) = (if simulateTypingBeforeSend (scfg s1) then rnd_read (srnd s1)
                          else (0, srnd s1));
               doTyping = (simulateTypingBeforeSend (scfg s1)
                           \<and> x < simulateTypingFraction (scfg s1));
               s2 = s1\<lparr> srnd := r1 \<rparr>
           in if doTyping then
                (let typingDur = computeTypingDurationForMessage (scfg s2) m;
                     (h, t') = sim_setTimeout now (typingDur + 80) (Render m) (stimers s2)
                 in (s2\<lparr> stimers := t' \<rparr>, Some m))
              else (s2\<lparr> rendered := rendered s2 @ [m] \<rparr>, Some m)))"

text \<open>
  The event loop runs the delayed render with handle \<open>h\<close> (lines 163-165 and 275):
  possible while the handle is pending and due. The callback does not look at
  \<open>running\<close>.
\<close>

definition fire_render :: "nat \<Rightarrow> int \<Rightarrow> sim_state \<Rightarrow> sim_state" where
  "fire_render h now s =
     (case filter (\<lambda>(k, due, cb). k = h \<and> due \<le> now) (sim_pending (stimers s)) of
        (k, due, Render m) # rest \<Rightarrow>
          s\<lparr> stimers := sim_clearTimeout h (stimers s), rendered := rendered s @ [m] \<rparr>
      | _ \<Rightarrow> s)"

text \<open>A message as the pool's view returns one, with the text \<open>gm\<close>.\<close>

definition example_message :: message where
  "example_message =
     \<lparr> msg_id = js ''msg_1_3302'', msg_name = js ''Member 1'', msg_displayName = js ''Member 1'',
       msg_role = js ''VERIFIED'', msg_avatar = [], msg_text = js ''gm'', msg_time = 0,
       msg_replyTo = None, msg_attachment = None \<rparr>"

section \<open>Properties of the seeded generator\<close>

lemma rnd_index_less: "0 < n \<Longrightarrow> rnd_index x n < n"
proof -
  assume n: "0 < n"
  have "unat x < 4294967296"
    using unsigned_less [of x, where 'a = nat] by simp
  then have "unat x * n < 4294967296 * n"
    using n by simp
  then show ?thesis
    by (simp add: rnd_index_def less_mult_imp_div_less mult.commute)
qed

text \<open>
  Claim C10. A seed whose unsigned 32-bit coercion is 0 (0 itself, \<open>2^32\<close>, ...) is
  replaced by \<open>0x811c9dc5\<close>, so the generator made from it returns, call after call,
  exactly the numbers of the generator made from \<open>0x811c9dc5\<close>.
\<close>

theorem xorshift32_zero_seed_alias:
  "to_uint32 seed = 0 \<Longrightarrow> xorshift32_seq seed k = xorshift32_seq 0x811c9dc5 k"
  by (simp add: xorshift32_seq_def xorshift32_init_def to_uint32_def Let_def)

theorem xorshift32_zero_seed_alias_witness:
  "to_uint32 4294967296 = 0 \<and> xorshift32_seq 4294967296 2 = xorshift32_seq 0x811c9dc5 2
   \<and> xorshift32_seq 0 2 = xorshift32_seq 0x811c9dc5 2"
proof -
  have h1: "to_uint32 4294967296 = 0" by (simp add: to_uint32_def)
  have h0: "to_uint32 0 = 0" by (simp add: to_uint32_def)
  show ?thesis
    using h1 xorshift32_zero_seed_alias [OF h1, of 2] xorshift32_zero_seed_alias [OF h0, of 2]
    by simp
qed

section \<open>Properties of MessagePool\<close>

subsection \<open>Evaluating \<open>Math.round\<close> on numerals\<close>

lemma floor_rat_numeral_div:
  "\<lfloor>(numeral a :: rat) / numeral b\<rfloor> = numeral a div numeral b"
  using floor_divide_of_int_eq [of "numeral a" "numeral b", where ?'a = rat] by simp

lemma floor_rat_neg_numeral_div:
  "\<lfloor>- ((numeral a :: rat) / numeral b)\<rfloor> = - numeral a div numeral b"
  using floor_divide_of_int_eq [of "- numeral a" "numeral b", where ?'a = rat] by simp

lemma floor_rat_one_div:
  "\<lfloor>(1 :: rat) / numeral b\<rfloor> = 1 div numeral b"
  using floor_divide_of_int_eq [of 1 "numeral b", where ?'a = rat] by simp

lemma floor_rat_neg_one_div:
  "\<lfloor>- ((1 :: rat) / numeral b)\<rfloor> = - 1 div numeral b"
  using floor_divide_of_int_eq [of "- 1" "numeral b", where ?'a = rat] by simp

lemmas floor_rat_eval =
  floor_rat_numeral_div floor_rat_neg_numeral_div floor_rat_one_div floor_rat_neg_one_div

subsection \<open>The ordering pass\<close>

lemma dbl_exp_bound: "n < 2 ^ (53 + k) \<Longrightarrow> dbl_exp n \<le> k"
proof (induction k arbitrary: n)
  case 0
  then show ?case by (simp add: dbl_exp.simps)
next
  case (Suc k)
  show ?case
  proof (cases "n < 2 ^ 53")
    case True
    then show ?thesis by (simp add: dbl_exp.simps)
  next
    case False
    have "(2::nat) ^ (53 + Suc k) = 2 * 2 ^ (53 + k)" by (simp only: add_Suc_right power_Suc)
    with Suc.prems have "n < 2 * 2 ^ (53 + k)" by (simp only:)
    then have "n div 2 < 2 ^ (53 + k)" by linarith
    from Suc.IH [OF this] False show ?thesis
      by (subst dbl_exp.simps) simp
  qed
qed

lemma to_double_nat_near:
  "to_double_nat n \<le> n + 2 ^ dbl_exp n div 2 \<and> n \<le> to_double_nat n + 2 ^ dbl_exp n div 2"
proof -
  define e where "e = dbl_exp n"
  define P :: nat where "P = 2 ^ e"
  define q where "q = n div P"
  define r where "r = n mod P"
  have n: "n = q * P + r"
    unfolding q_def r_def by (rule div_mult_mod_eq [symmetric])
  have r: "r < P"
    by (simp add: r_def P_def)
  have half: "2 * (P div 2) = P \<or> (P = 1 \<and> r = 0)"
  proof (cases e)
    case 0
    with r show ?thesis by (simp add: P_def)
  next
    case (Suc k)
    then show ?thesis by (simp add: P_def)
  qed
  have val: "to_double_nat n = (if P < 2 * r \<or> (2 * r = P \<and> odd q) then q * P + P else q * P)"
    by (simp add: to_double_nat_def Let_def e_def [symmetric] P_def [symmetric]
          q_def [symmetric] r_def [symmetric])
  show ?thesis
    unfolding e_def [symmetric] P_def [symmetric] val
    using n r half by (auto split: if_splits)
qed

lemma to_double_near:
  assumes "\<bar>x\<bar> < 2 ^ 63"
  shows "\<bar>to_double x - x\<bar> \<le> 512"
proof -
  have "nat \<bar>x\<bar> < 2 ^ (53 + 10)"
    using assms by (simp add: nat_less_iff)
  from dbl_exp_bound [OF this] have "(2::nat) ^ dbl_exp (nat \<bar>x\<bar>) \<le> 2 ^ 10"
    by (intro power_increasing) simp_all
  then have "(2::nat) ^ dbl_exp (nat \<bar>x\<bar>) div 2 \<le> 512"
    by simp
  with to_double_nat_near [of "nat \<bar>x\<bar>"]
  have "to_double_nat (nat \<bar>x\<bar>) \<le> nat \<bar>x\<bar> + 512"
    and "nat \<bar>x\<bar> \<le> to_double_nat (nat \<bar>x\<bar>) + 512"
    by linarith+
  then have near: "int (to_double_nat (nat \<bar>x\<bar>)) \<le> \<bar>x\<bar> + 512"
    "\<bar>x\<bar> \<le> int (to_double_nat (nat \<bar>x\<bar>)) + 512"
    by linarith+
  show ?thesis
  proof (cases "x < 0")
    case True
    then have "to_double x = - int (to_double_nat (nat \<bar>x\<bar>))"
      by (simp add: to_double_def)
    with near True show ?thesis by linarith
  next
    case False
    then have "to_double x = int (to_double_nat (nat \<bar>x\<bar>))"
      by (simp add: to_double_def)
    with near False show ?thesis by linarith
  qed
qed

lemma to_double_far: "to_double 10000000000000001000 = 10000000000000000000"
proof -
  have "dbl_exp 10000000000000001000 = 11"
    by (simp add: dbl_exp.simps)
  then show ?thesis
    by (simp add: to_double_def to_double_nat_def Let_def)
qed

lemma bump_from_increasing:
  "\<forall>m \<in> set (bump_from prev ms). \<bar>msg_time m\<bar> < 2 ^ 62 \<Longrightarrow> \<bar>prev\<bar> < 2 ^ 62
   \<Longrightarrow> sorted_wrt (<) (map msg_time (bump_from prev ms))
       \<and> (\<forall>m \<in> set (bump_from prev ms). prev < msg_time m)"
proof (induction ms arbitrary: prev)
  case Nil
  show ?case by simp
next
  case (Cons m ms)
  define m' where
    "m' = (if msg_time m \<le> prev then m\<lparr> msg_time := to_double (prev + 1000) \<rparr> else m)"
  have unfold: "bump_from prev (m # ms) = m' # bump_from (msg_time m') ms"
    by (simp add: m'_def Let_def)
  from Cons.prems(2) have "\<bar>prev + 1000\<bar> < 2 ^ 63" by simp
  from to_double_near [OF this] have step: "prev < msg_time m'"
    by (auto simp: m'_def)
  from Cons.prems(1) have bound: "\<bar>msg_time m'\<bar> < 2 ^ 62"
    and rest: "\<forall>x \<in> set (bump_from (msg_time m') ms). \<bar>msg_time x\<bar> < 2 ^ 62"
    unfolding unfold by simp_all
  from Cons.IH [OF rest bound] step show ?case
    unfolding unfold by auto
qed

lemma enforce_monotonic_increasing:
  assumes "\<forall>m \<in> set (enforce_monotonic arr). \<bar>msg_time m\<bar> < 2 ^ 62"
  shows "sorted_wrt (<) (map msg_time (enforce_monotonic arr))"
proof (cases arr)
  case Nil
  then show ?thesis by (simp add: enforce_monotonic_def)
next
  case (Cons m ms)
  with assms have "\<forall>x \<in> set (bump_from (msg_time m) ms). \<bar>msg_time x\<bar> < 2 ^ 62"
    and "\<bar>msg_time m\<bar> < 2 ^ 62"
    by (simp_all add: enforce_monotonic_def)
  from bump_from_increasing [OF this] Cons show ?thesis
    by (simp add: enforce_monotonic_def)
qed

lemma generatePool_returns:
  assumes "generatePool e clock opts st = (st', Inr pool)"
  shows "\<exists>arr tries. generated_slots e clock opts st = Inr (arr, tries)
           \<and> pool = enforce_monotonic (sort_key msg_time arr)
           \<and> st' = (pool_setup opts st)\<lparr> messages := pool \<rparr>"
  using assms by (auto simp: generatePool_def Let_def split: sum.splits)

subsection \<open>The retry loop and the LRU\<close>

lemma dedupe_fresh:
  "\<not> lru_has ks h \<Longrightarrow> dedupe e st now opts sz seedBase i ks attempts m h = Inr (m, h, attempts)"
  by (simp add: dedupe.simps)








subsection \<open>Independence of the clock under an explicit window\<close>

lemma time_window_explicit:
  "explicit_window opts \<Longrightarrow> time_window now1 opts = time_window now2 opts"
  by (rule ext)
    (auto simp: explicit_window_def time_window_def truthy_or_def nz_def split: option.splits)

lemma generateMessageForIndex_clock_free:
  assumes "explicit_window opts"
  shows "generateMessageForIndex e st now1 i opts = generateMessageForIndex e st now2 i opts"
  unfolding generateMessageForIndex_def time_window_explicit [OF assms, of now1 now2]
  by (rule refl)

lemma explicit_window_slot_opts:
  "explicit_window (slot_opts opts sz seedBase tf) = explicit_window opts"
  "explicit_window (alt_opts opts sz seedBase tf) = explicit_window opts"
  by (simp_all add: explicit_window_def slot_opts_def alt_opts_def)

lemma dedupe_clock_free:
  assumes "explicit_window opts"
  shows "dedupe e st now1 opts sz seedBase i ks attempts m h
           = dedupe e st now2 opts sz seedBase i ks attempts m h"
proof (induction "8 - attempts" arbitrary: attempts m h)
  case 0
  then have "\<not> attempts < 8" by simp
  then show ?case by (simp add: dedupe.simps)
next
  case (Suc n)
  then have step: "n = 8 - Suc attempts" by simp
  have alt: "generateMessageForIndex e st now1 (i + attempts + 1)
               (alt_opts opts sz (seedBase + int attempts + 1) (templateFragments st))
             = generateMessageForIndex e st now2 (i + attempts + 1)
               (alt_opts opts sz (seedBase + int attempts + 1) (templateFragments st))"
    by (rule generateMessageForIndex_clock_free) (simp add: explicit_window_slot_opts assms)
  have rec: "\<And>m' h'. dedupe e st now1 opts sz seedBase i ks (Suc attempts) m' h'
                 = dedupe e st now2 opts sz seedBase i ks (Suc attempts) m' h'"
    by (rule Suc.hyps(1) [OF step])
  have "dedupe e st now1 opts sz seedBase i ks attempts m h
          = (if lru_has ks h \<and> attempts < 8 then
               (case generateMessageForIndex e st now2 (i + attempts + 1)
                       (alt_opts opts sz (seedBase + int attempts + 1) (templateFragments st)) of
                  Inl err \<Rightarrow> Inl err
                | Inr alt \<Rightarrow>
                    (case (if attempts mod 2 = 0 then
                             (case pickFrom e EMOJI (xorshift32_init (seedBase + int attempts + int i)) of
                                Inl err \<Rightarrow> Inl err
                              | Inr (em, s) \<Rightarrow> Inr (js '' '' @ em))
                           else Inr []) of
                       Inl err \<Rightarrow> Inl err
                     | Inr suffix \<Rightarrow>
                         (let m' = m\<lparr> msg_text := msg_text alt @ suffix,
                                       msg_attachment :=
                                         (case msg_attachment m of
                                            Some a \<Rightarrow> Some a | None \<Rightarrow> msg_attachment alt),
                                       msg_replyTo :=
                                         (case msg_replyTo m of
                                            Some r \<Rightarrow> Some r | None \<Rightarrow> msg_replyTo alt) \<rparr>
                          in dedupe e st now2 opts sz seedBase i ks (Suc attempts) m'
                               (contentHash (take 240 (msg_text m'))))))
             else Inr (m, h, attempts))"
    by (subst dedupe.simps) (unfold alt rec, rule refl)
  also have "\<dots> = dedupe e st now2 opts sz seedBase i ks attempts m h"
    by (rule dedupe.simps [symmetric])
  finally show ?case .
qed

lemma fill_slots_clock_free:
  assumes "explicit_window opts"
  shows "fill_slots e clock1 st opts sz seedBase cap idxs ks arr tries
           = fill_slots e clock2 st opts sz seedBase cap idxs ks arr tries"
proof (induction idxs arbitrary: ks arr tries)
  case Nil
  show ?case by simp
next
  case (Cons i rest)
  have gen: "generateMessageForIndex e st (clock1 i) i (slot_opts opts sz seedBase (templateFragments st))
           = generateMessageForIndex e st (clock2 i) i (slot_opts opts sz seedBase (templateFragments st))"
    by (rule generateMessageForIndex_clock_free) (simp add: explicit_window_slot_opts assms)
  show ?case
    by (simp add: gen dedupe_clock_free [OF assms, of e st "clock1 i" _ _ _ _ _ _ _ "clock2 i"]
          Cons.IH split: sum.splits)
qed

text \<open>
  Claim C1, amended. When the options give both ends of the time window, the outcome of
  \<open>generatePool\<close> (the pool or the exception, and the state it leaves) is a function of
  the options, the state of the pool before the call and the member lists: it does not
  depend on the clock. In particular two calls from equal states with equal options
  return messages with equal id, text and time at every index.
\<close>

theorem generatePool_clock_independent:
  "explicit_window opts \<Longrightarrow> generatePool e clock1 opts st = generatePool e clock2 opts st"
  by (simp add: generatePool_def generated_slots_def Let_def
        fill_slots_clock_free [of opts e clock1 _ _ _ _ _ _ _ _ clock2])

theorem generatePool_clock_independent_witness:
  "explicit_window opts_window
   \<and> generatePool (repository_env [] []) (\<lambda>_. 1700000000000) opts_window initial_pool
     = generatePool (repository_env [] []) (\<lambda>_. 1700000001000) opts_window initial_pool"
proof -
  have w: "explicit_window opts_window"
    by (simp add: explicit_window_def opts_window_def no_opts_def)
  from w generatePool_clock_independent [OF w] show ?thesis by simp
qed

subsection \<open>The generator view\<close>

lemma generate_page_raises:
  "idx \<in> set idxs \<Longrightarrow> isl (generateMessageForIndex e st (clock idx) idx vopts)
     \<Longrightarrow> generate_page e clock st vopts idxs arr = Inl ReferenceError"
proof (induction idxs arbitrary: arr)
  case Nil
  then show ?case by simp
next
  case (Cons a rest)
  show ?case
  proof (cases "generateMessageForIndex e st (clock a) a vopts")
    case (Inl err)
    then show ?thesis by (cases err) simp
  next
    case (Inr m)
    with Cons.prems have "idx \<in> set rest" by auto
    from Cons.IH [OF this Cons.prems(2)] Inr show ?thesis by simp
  qed
qed

lemma generateMessageForIndex_isl:
  "isl (generateMessageForIndex e st now i opts)
     = isl (gen_text e
              (case o_templates opts of Some ts \<Rightarrow> ts | None \<Rightarrow> templateFragments st)
              (snd (pick_sender e
                 (xorshift32_init
                    (truthy_or (o_seedBase opts) (nz (meta_seedBase (meta st)) 4000) + int i * 15721)))))"
  by (simp add: generateMessageForIndex_def Let_def split: sum.splits prod.splits)

lemma DEFAULT_PHRASES_length: "length DEFAULT_PHRASES = 15"
  by (simp add: DEFAULT_PHRASES_def)

lemma DEFAULT_PHRASES_nonempty: "k < 15 \<Longrightarrow> DEFAULT_PHRASES ! k \<noteq> []"
proof -
  have "list_all (\<lambda>p. p \<noteq> []) DEFAULT_PHRASES"
    by (simp add: DEFAULT_PHRASES_def js_def)
  then show "k < 15 \<Longrightarrow> DEFAULT_PHRASES ! k \<noteq> []"
    by (simp add: list_all_length DEFAULT_PHRASES_length)
qed

lemma pick_fragment_default:
  "snd (pick_fragment DEFAULT_PHRASES s) = xorshift32_next s"
proof -
  have "rnd_index (xorshift32_next s) 15 < 15"
    by (rule rnd_index_less) simp
  then show ?thesis
    by (simp add: pick_fragment_def Let_def DEFAULT_PHRASES_length DEFAULT_PHRASES_nonempty)
qed

lemma text_loop_default:
  "snd (text_loop DEFAULT_PHRASES n t tx s) = (xorshift32_next ^^ n) s"
proof (induction n arbitrary: t tx s)
  case 0
  show ?case by simp
next
  case (Suc n)
  obtain frag s1 where pf: "pick_fragment DEFAULT_PHRASES s = (frag, s1)"
    by (cases "pick_fragment DEFAULT_PHRASES s")
  with pick_fragment_default [of s] have s1: "s1 = xorshift32_next s" by simp
  show ?case
    by (simp add: pf s1 Suc.IH funpow_swap1)
qed

lemma gen_text_raises:
  assumes "global_pickFrom e = None"
    and "s1 = xorshift32_next s0"
    and "n = (if rnd_value s1 < 12 / 100 then Suc (Suc 0) else Suc 0)"
    and "s3 = xorshift32_next ((xorshift32_next ^^ n) s1)"
    and "\<not> rnd_value s3 < 18 / 100"
    and "rnd_value (xorshift32_next s3) < 12 / 100"
  shows "gen_text e DEFAULT_PHRASES s0 = Inl ReferenceError"
proof -
  obtain tx s2 where tl: "text_loop DEFAULT_PHRASES n 0 [] s1 = (tx, s2)"
    by (cases "text_loop DEFAULT_PHRASES n 0 [] s1")
  with text_loop_default [of n 0 "[]" s1] have s2: "s2 = (xorshift32_next ^^ n) s1" by simp
  have c: "\<not> rnd_value (xorshift32_next s2) < 18 / 100"
    "rnd_value (xorshift32_next (xorshift32_next s2)) < 12 / 100"
    using assms(4,5,6) s2 by simp_all
  show ?thesis
    unfolding gen_text_def Let_def assms(2) [symmetric] assms(3) [symmetric] tl
    using c by (simp add: pickFrom_def assms(1))
qed

lemma first_page_index_11:
  "isl (generateMessageForIndex (repository_env [] []) initial_pool now 11
          (view_opts (no_opts\<lparr> o_pageSize := Some 50 \<rparr>) initial_pool))"
proof -
  define s0 :: u32 where "s0 = xorshift32_init (4000 + 11 * 15721)"
  have "gen_text (repository_env [] []) DEFAULT_PHRASES s0 = Inl ReferenceError"
  proof (rule gen_text_raises [where ?s1.0 = "xorshift32_next s0" and n = "Suc 0"
         and ?s3.0 = "xorshift32_next (xorshift32_next (xorshift32_next s0))"])
    show "global_pickFrom (repository_env [] []) = None"
      by (simp add: repository_env_def)
    show "Suc 0 = (if rnd_value (xorshift32_next s0) < 12 / 100 then Suc (Suc 0) else Suc 0)"
      by (simp add: s0_def xorshift32_init_def to_uint32_def xorshift32_next_def rnd_value_def)
    show "\<not> rnd_value (xorshift32_next (xorshift32_next (xorshift32_next s0))) < 18 / 100"
      by (simp add: s0_def xorshift32_init_def to_uint32_def xorshift32_next_def rnd_value_def)
    show "rnd_value
            (xorshift32_next (xorshift32_next (xorshift32_next (xorshift32_next s0)))) < 12 / 100"
      by (simp add: s0_def xorshift32_init_def to_uint32_def xorshift32_next_def rnd_value_def)
  qed simp_all
  then show ?thesis
    unfolding generateMessageForIndex_isl
    by (simp add: view_opts_def no_opts_def initial_pool_def truthy_or_def nz_def pick_sender_def
          repository_env_def s0_def)
qed

lemma first_page_index_1:
  assumes "sample \<noteq> [] \<or> ppl \<noteq> []"
  shows "isl (generateMessageForIndex (repository_env sample ppl) initial_pool now 1
          (view_opts (no_opts\<lparr> o_pageSize := Some 50 \<rparr>) initial_pool))"
proof -
  define s0 :: u32 where "s0 = xorshift32_next (xorshift32_init (4000 + 1 * 15721))"
  have sender: "snd (pick_sender (repository_env sample ppl) (xorshift32_init (4000 + 1 * 15721))) = s0"
    using assms by (auto simp: pick_sender_def repository_env_def Let_def s0_def)
  have "gen_text (repository_env sample ppl) DEFAULT_PHRASES s0 = Inl ReferenceError"
  proof (rule gen_text_raises [where ?s1.0 = "xorshift32_next s0" and n = "Suc 0"
         and ?s3.0 = "xorshift32_next (xorshift32_next (xorshift32_next s0))"])
    show "global_pickFrom (repository_env sample ppl) = None"
      by (simp add: repository_env_def)
    show "Suc 0 = (if rnd_value (xorshift32_next s0) < 12 / 100 then Suc (Suc 0) else Suc 0)"
      by (simp add: s0_def xorshift32_init_def to_uint32_def xorshift32_next_def rnd_value_def)
    show "\<not> rnd_value (xorshift32_next (xorshift32_next (xorshift32_next s0))) < 18 / 100"
      by (simp add: s0_def xorshift32_init_def to_uint32_def xorshift32_next_def rnd_value_def)
    show "rnd_value
            (xorshift32_next (xorshift32_next (xorshift32_next (xorshift32_next s0)))) < 12 / 100"
      by (simp add: s0_def xorshift32_init_def to_uint32_def xorshift32_next_def rnd_value_def)
  qed simp_all
  then show ?thesis
    unfolding generateMessageForIndex_isl
    using sender
    by (simp add: view_opts_def no_opts_def initial_pool_def truthy_or_def nz_def)
qed

subsection \<open>A template bank of one long fragment\<close>














subsection \<open>Retries in the repository\<close>

lemma dedupe_repository:
  assumes "dedupe (repository_env sample ppl) st now opts sz seedBase i ks 0 m h = Inr (m', h', a)"
  shows "a = 0 \<and> m' = m \<and> h' = h \<and> \<not> lru_has ks h"
proof (cases "lru_has ks h")
  case False
  with assms show ?thesis by (simp add: dedupe.simps)
next
  case True
  have "isl (dedupe (repository_env sample ppl) st now opts sz seedBase i ks 0 m h)"
    by (subst dedupe.simps)
       (simp add: True pickFrom_def repository_env_def split: sum.splits)
  with assms show ?thesis by simp
qed

lemma fill_slots_repository:
  "fill_slots (repository_env sample ppl) clock st opts sz seedBase cap idxs ks arr tries
     = Inr (res, tries')
   \<Longrightarrow> \<forall>t \<in> set tries. t = 0 \<Longrightarrow> \<forall>t \<in> set tries'. t = 0"
proof (induction idxs arbitrary: ks arr tries)
  case Nil
  then show ?case by simp
next
  case (Cons i rest)
  from Cons.prems(1) obtain m m' h a where
    dd: "dedupe (repository_env sample ppl) st (clock i) opts sz seedBase i ks 0 m
           (contentHash (take 240 (msg_text m))) = Inr (m', h, a)"
    and rest: "fill_slots (repository_env sample ppl) clock st opts sz seedBase cap rest
                 (lru_push cap ks h) (arr @ [m']) (tries @ [a]) = Inr (res, tries')"
    by (auto split: sum.splits)
  from dedupe_repository [OF dd] have "a = 0" by simp
  with Cons.prems(2) have "\<forall>t \<in> set (tries @ [a]). t = 0" by simp
  from Cons.IH [OF rest this] show ?case .
qed

lemma generated_slots_repository:
  assumes "generated_slots (repository_env sample ppl) clock opts st = Inr (arr, tries)"
  shows "\<forall>t \<in> set tries. t = 0"
proof -
  from assms show ?thesis
    unfolding generated_slots_def Let_def
    by (rule fill_slots_repository) simp
qed


text \<open>
  Claim C2, amended. When \<open>generatePool\<close> returns a pool, the pool is the stored array
  \<open>this.messages\<close>; and when every time in it has a magnitude below \<open>2^62\<close>, the time of
  every message but the first is strictly greater than the time of its predecessor.
\<close>

theorem generatePool_strictly_increasing:
  assumes "generatePool e clock opts st = (st', Inr pool)"
    and "\<forall>m \<in> set pool. \<bar>msg_time m\<bar> < 2 ^ 62"
    and "0 < i" and "i < length pool"
  shows "messages st' = pool \<and> msg_time (pool ! (i - 1)) < msg_time (pool ! i)"
proof -
  from generatePool_returns [OF assms(1)] obtain arr tries where
    pool: "pool = enforce_monotonic (sort_key msg_time arr)"
    and st': "st' = (pool_setup opts st)\<lparr> messages := pool \<rparr>"
    by blast
  have "sorted_wrt (<) (map msg_time pool)"
    using assms(2) unfolding pool by (rule enforce_monotonic_increasing)
  then have "map msg_time pool ! (i - 1) < map msg_time pool ! i"
    using assms(3,4) by (simp add: sorted_wrt_iff_nth_less)
  with assms(3,4) have "msg_time (pool ! (i - 1)) < msg_time (pool ! i)"
    by simp
  with st' show ?thesis by simp
qed

text \<open>
  Claim C8. On a pool that holds no messages, \<open>createGeneratorView({pageSize: 50})\<close>
  is the generating view, and its \<open>nextPage(0)\<close> raises \<open>ReferenceError\<close> whatever the
  member lists and the clock: the text of index 11 (index 1 when there are members)
  takes the emoji branch of line 151, which calls the unbound \<open>pickFrom\<close>. No page of
  50 messages is returned.
\<close>

theorem generator_view_first_page_raises:
  "nextPage (createGeneratorView (no_opts\<lparr> o_pageSize := Some 50 \<rparr>) initial_pool)
     (repository_env sample ppl) clock initial_pool 0 = Inl ReferenceError"
proof -
  have view: "createGeneratorView (no_opts\<lparr> o_pageSize := Some 50 \<rparr>) initial_pool
                = GeneratorView 50 (no_opts\<lparr> o_pageSize := Some 50 \<rparr>)"
    by (simp add: createGeneratorView_def initial_pool_def no_opts_def truthy_or_def nz_def)
  show ?thesis
  proof (cases "sample = [] \<and> ppl = []")
    case True
    have mem: "(11::nat) \<in> set (map (\<lambda>j. 0 + j) [0..<50])" by simp
    from True have e: "repository_env sample ppl = repository_env [] []" by simp
    show ?thesis
      unfolding view nextPage.simps e
      by (simp only: generate_page_raises [OF mem first_page_index_11] sum.case)
  next
    case False
    have mem: "(1::nat) \<in> set (map (\<lambda>j. 0 + j) [0..<50])" by simp
    from False have ne: "sample \<noteq> [] \<or> ppl \<noteq> []" by simp
    show ?thesis
      unfolding view nextPage.simps
      by (simp only: generate_page_raises [OF mem first_page_index_1 [OF ne]] sum.case)
  qed
qed

subsection \<open>Evaluating runs of the generator\<close>

text \<open>
  The runs below are evaluated by rewriting. The states a generator goes through are
  computed once per seed, and the argument of a \<open>let\<close> or a \<open>case\<close> is evaluated
  before its body.
\<close>

lemma Let_weak_cong: "a = b \<Longrightarrow> Let a f = Let b f"
  by simp

lemmas eval_cong = Let_weak_cong prod.case_cong_weak sum.case_cong_weak option.case_cong_weak

lemma js_eq_iff [simp]: "js a = js b \<longleftrightarrow> a = b"
  by (simp add: js_def inj_on_def inj_map_eq_map)

lemma sample_templates_length: "length sample_templates = 16"
  by (simp add: sample_templates_def)

lemma sample_templates_nth:
  "sample_templates ! (0) = js ''gm''"
  "sample_templates ! (Suc 0) = js ''gn''"
  "sample_templates ! (2) = js ''wen''"
  "sample_templates ! (3) = js ''lfg''"
  "sample_templates ! (4) = js ''hodl''"
  "sample_templates ! (5) = js ''dip''"
  "sample_templates ! (6) = js ''moon''"
  "sample_templates ! (7) = js ''rekt''"
  "sample_templates ! (8) = js ''long''"
  "sample_templates ! (9) = js ''short''"
  "sample_templates ! (10) = js ''pump''"
  "sample_templates ! (11) = js ''dump''"
  "sample_templates ! (12) = js ''ath''"
  "sample_templates ! (13) = js ''fud''"
  "sample_templates ! (14) = js ''wagmi''"
  "sample_templates ! (15) = js ''ngmi''"
  by (simp_all add: sample_templates_def)

lemmas gen_eval =
  generateMessageForIndex_def no_opts_def initial_pool_def gen_text_def pick_sender_def
  repository_env_def env_with_pickFrom_def pickFrom_people_def EMOJI_def truthy_or_def nz_def
  rnd_value_def rnd_index_def pick_fragment_def pickFrom_def Let_def gen_ending_def
  pick_attachment_def pick_reply_def time_window_def js_round_def floor_rat_eval
  fallback_sender_def or_str_def js_def hashCode_def price_token_def toFixed2_def dec.simps
  SAMPLE_ATTACHMENTS_def slot_opts_def alt_opts_def pool_setup_def clamp_def
  sample_templates_length sample_templates_nth

lemma slot_hash_time [simp]: "slot_hash (m\<lparr> msg_time := t \<rparr>) = slot_hash m"
  by (simp add: slot_hash_def)

lemma upt_10: "[0..<nat 10] = [0, 1, 2, 3, 4, 5, 6, 7, 8, 9]"
  by (simp add: upt_rec)




subsection \<open>The run with a window that ends at the clock\<close>

lemma chain_163:
  "xorshift32_init 163 = 163"
  "xorshift32_next 163 = 43545993"
  "xorshift32_next 43545993 = 2298683453"
  "xorshift32_next 2298683453 = 1301946719"
  "xorshift32_next 1301946719 = 1065973095"
  "xorshift32_next 1065973095 = 899031893"
  "xorshift32_next 899031893 = 3462631115"
  "xorshift32_next 3462631115 = 1223463894"
  "xorshift32_next 1223463894 = 2287070525"
  "xorshift32_next 2287070525 = 188018438"
  "xorshift32_init 15884 = 15884"
  "xorshift32_next 15884 = 4294312044"
  "xorshift32_next 4294312044 = 3230166449"
  "xorshift32_next 3230166449 = 1794854638"
  "xorshift32_next 1794854638 = 1744265437"
  "xorshift32_next 1744265437 = 4135329867"
  "xorshift32_next 4135329867 = 1020942161"
  "xorshift32_next 1020942161 = 2956576105"
  "xorshift32_next 2956576105 = 2583725379"
  "xorshift32_init 31605 = 31605"
  "xorshift32_next 31605 = 3803530370"
  "xorshift32_next 3803530370 = 243340176"
  "xorshift32_next 243340176 = 2996025545"
  "xorshift32_next 2996025545 = 1960164236"
  "xorshift32_next 1960164236 = 3073315230"
  "xorshift32_next 3073315230 = 4135819536"
  "xorshift32_next 4135819536 = 832218048"
  "xorshift32_next 832218048 = 3652237073"
  "xorshift32_init 47326 = 47326"
  "xorshift32_next 47326 = 4101314867"
  "xorshift32_next 4101314867 = 3174629850"
  "xorshift32_next 3174629850 = 1027859515"
  "xorshift32_next 1027859515 = 2035302393"
  "xorshift32_next 2035302393 = 2873832814"
  "xorshift32_next 2873832814 = 1899290685"
  "xorshift32_next 1899290685 = 1263919652"
  "xorshift32_next 1263919652 = 355609644"
  "xorshift32_init 63047 = 63047"
  "xorshift32_next 63047 = 3351985475"
  "xorshift32_next 3351985475 = 2885854002"
  "xorshift32_next 2885854002 = 4109860608"
  "xorshift32_next 4109860608 = 2046370795"
  "xorshift32_next 2046370795 = 3976841225"
  "xorshift32_next 3976841225 = 1427686317"
  "xorshift32_next 1427686317 = 3771065979"
  "xorshift32_next 3771065979 = 3714033598"
  "xorshift32_init 78768 = 78768"
  "xorshift32_next 78768 = 3901960683"
  "xorshift32_next 3901960683 = 1533854012"
  "xorshift32_next 1533854012 = 2855220153"
  "xorshift32_next 2855220153 = 3344860981"
  "xorshift32_next 3344860981 = 3770528201"
  "xorshift32_next 3770528201 = 2249452523"
  "xorshift32_next 2249452523 = 2528132572"
  "xorshift32_next 2528132572 = 2960481913"
  "xorshift32_init 94489 = 94489"
  "xorshift32_next 94489 = 3932849928"
  "xorshift32_next 3932849928 = 3958412269"
  "xorshift32_next 3958412269 = 3357846091"
  "xorshift32_next 3357846091 = 4040260445"
  "xorshift32_next 4040260445 = 686564480"
  "xorshift32_next 686564480 = 603071870"
  "xorshift32_next 603071870 = 2363952336"
  "xorshift32_next 2363952336 = 3269097390"
  "xorshift32_init 110210 = 110210"
  "xorshift32_next 110210 = 2414836010"
  "xorshift32_next 2414836010 = 2039161007"
  "xorshift32_next 2039161007 = 2923889248"
  "xorshift32_next 2923889248 = 2406451653"
  "xorshift32_next 2406451653 = 3031812910"
  "xorshift32_next 3031812910 = 3083973894"
  "xorshift32_next 3083973894 = 2941747838"
  "xorshift32_next 2941747838 = 3155547058"
  "xorshift32_init 125931 = 125931"
  "xorshift32_next 125931 = 2465087477"
  "xorshift32_next 2465087477 = 4144372445"
  "xorshift32_next 4144372445 = 3219766931"
  "xorshift32_next 3219766931 = 2403912526"
  "xorshift32_next 2403912526 = 1376340894"
  "xorshift32_next 1376340894 = 338457155"
  "xorshift32_next 338457155 = 3606032721"
  "xorshift32_next 3606032721 = 947234643"
  "xorshift32_init 141652 = 141652"
  "xorshift32_next 141652 = 3761894336"
  "xorshift32_next 3761894336 = 376570080"
  "xorshift32_next 376570080 = 2611695927"
  "xorshift32_next 2611695927 = 3224696785"
  "xorshift32_next 3224696785 = 2266099318"
  "xorshift32_next 2266099318 = 3778089017"
  "xorshift32_next 3778089017 = 2784781794"
  "xorshift32_next 2784781794 = 21371138"
  by (simp_all add: xorshift32_init_def xorshift32_next_def to_uint32_def Let_def)

lemma span_slot_0:
  "generateMessageForIndex (repository_env [] []) (pool_setup opts_span initial_pool) now (0)
     (slot_opts opts_span 10 163 sample_templates)
   = Inr ((slots_163 ! 0)\<lparr> msg_time := max 0 (now - 88042405) \<rparr>)"
  by (simp add: gen_eval chain_163 opts_span_def slots_163_def cong: eval_cong)

lemma span_slot_1:
  "generateMessageForIndex (repository_env [] []) (pool_setup opts_span initial_pool) now (Suc 0)
     (slot_opts opts_span 10 163 sample_templates)
   = Inr ((slots_163 ! 1)\<lparr> msg_time := max 0 (now - 76434346) \<rparr>)"
  by (simp add: gen_eval chain_163 opts_span_def slots_163_def cong: eval_cong)

lemma span_slot_2:
  "generateMessageForIndex (repository_env [] []) (pool_setup opts_span initial_pool) now (2)
     (slot_opts opts_span 10 163 sample_templates)
   = Inr ((slots_163 ! 2)\<lparr> msg_time := max 0 (now - 65938730) \<rparr>)"
  by (simp add: gen_eval chain_163 opts_span_def slots_163_def cong: eval_cong)

lemma span_slot_3:
  "generateMessageForIndex (repository_env [] []) (pool_setup opts_span initial_pool) now (3)
     (slot_opts opts_span 10 163 sample_templates)
   = Inr ((slots_163 ! 3)\<lparr> msg_time := max 0 (now - 59101931) \<rparr>)"
  by (simp add: gen_eval chain_163 opts_span_def slots_163_def cong: eval_cong)

lemma span_slot_4:
  "generateMessageForIndex (repository_env [] []) (pool_setup opts_span initial_pool) now (4)
     (slot_opts opts_span 10 163 sample_templates)
   = Inr ((slots_163 ! 4)\<lparr> msg_time := max 0 (now - 46686933) \<rparr>)"
  by (simp add: gen_eval chain_163 opts_span_def slots_163_def cong: eval_cong)

lemma span_slot_5:
  "generateMessageForIndex (repository_env [] []) (pool_setup opts_span initial_pool) now (5)
     (slot_opts opts_span 10 163 sample_templates)
   = Inr ((slots_163 ! 5)\<lparr> msg_time := max 0 (now - 37718553) \<rparr>)"
  by (simp add: gen_eval chain_163 opts_span_def slots_163_def cong: eval_cong)

lemma span_slot_6:
  "generateMessageForIndex (repository_env [] []) (pool_setup opts_span initial_pool) now (6)
     (slot_opts opts_span 10 163 sample_templates)
   = Inr ((slots_163 ! 6)\<lparr> msg_time := max 0 (now - 27859874) \<rparr>)"
  by (simp add: gen_eval chain_163 opts_span_def slots_163_def cong: eval_cong)

lemma span_slot_7:
  "generateMessageForIndex (repository_env [] []) (pool_setup opts_span initial_pool) now (7)
     (slot_opts opts_span 10 163 sample_templates)
   = Inr ((slots_163 ! 7)\<lparr> msg_time := max 0 (now - 18355051) \<rparr>)"
  by (simp add: gen_eval chain_163 opts_span_def slots_163_def cong: eval_cong)

lemma span_slot_8:
  "generateMessageForIndex (repository_env [] []) (pool_setup opts_span initial_pool) now (8)
     (slot_opts opts_span 10 163 sample_templates)
   = Inr ((slots_163 ! 8)\<lparr> msg_time := max 0 (now - 10606037) \<rparr>)"
  by (simp add: gen_eval chain_163 opts_span_def slots_163_def cong: eval_cong)

lemma span_slot_9:
  "generateMessageForIndex (repository_env [] []) (pool_setup opts_span initial_pool) now (9)
     (slot_opts opts_span 10 163 sample_templates)
   = Inr ((slots_163 ! 9)\<lparr> msg_time := max 0 (now - 1782087) \<rparr>)"
  by (simp add: gen_eval chain_163 opts_span_def slots_163_def cong: eval_cong)

lemmas span_slots =
  span_slot_0 span_slot_1 span_slot_2 span_slot_3 span_slot_4 span_slot_5 span_slot_6 span_slot_7 span_slot_8 span_slot_9

lemma slot_hashes_163:
  "slot_hash (slots_163 ! (0)) = js ''kca3y8''"
  "slot_hash (slots_163 ! (Suc 0)) = js ''375g7s''"
  "slot_hash (slots_163 ! (2)) = js ''3hmcv''"
  "slot_hash (slots_163 ! (3)) = js ''yis7op''"
  "slot_hash (slots_163 ! (4)) = js ''yj6ovx''"
  "slot_hash (slots_163 ! (5)) = js ''375bzs''"
  "slot_hash (slots_163 ! (6)) = js ''35p6vk''"
  "slot_hash (slots_163 ! (7)) = js ''yjbl65''"
  "slot_hash (slots_163 ! (8)) = js ''yj2dns''"
  "slot_hash (slots_163 ! (9)) = js ''3hmcs''"
  by (simp_all add: slot_hash_def slots_163_def contentHash_def js_def toString36.simps digit36_def)

lemma setup_span:
  "templateFragments (pool_setup opts_span initial_pool) = sample_templates"
  "meta_size (meta (pool_setup opts_span initial_pool)) = 10"
  "meta_seedBase (meta (pool_setup opts_span initial_pool)) = 163"
  "makeLRU_cap (o_dedupeLRU opts_span) = 4096"
  by (simp_all add: pool_setup_def opts_span_def no_opts_def initial_pool_def truthy_or_def
        nz_def clamp_def Let_def makeLRU_cap_def)

lemma span_generated:
  "generated_slots (repository_env [] []) clock opts_span initial_pool = Inr
     ([(slots_163 ! 0)\<lparr> msg_time := max 0 (clock (0) - 88042405) \<rparr>,
      (slots_163 ! 1)\<lparr> msg_time := max 0 (clock (Suc 0) - 76434346) \<rparr>,
      (slots_163 ! 2)\<lparr> msg_time := max 0 (clock (2) - 65938730) \<rparr>,
      (slots_163 ! 3)\<lparr> msg_time := max 0 (clock (3) - 59101931) \<rparr>,
      (slots_163 ! 4)\<lparr> msg_time := max 0 (clock (4) - 46686933) \<rparr>,
      (slots_163 ! 5)\<lparr> msg_time := max 0 (clock (5) - 37718553) \<rparr>,
      (slots_163 ! 6)\<lparr> msg_time := max 0 (clock (6) - 27859874) \<rparr>,
      (slots_163 ! 7)\<lparr> msg_time := max 0 (clock (7) - 18355051) \<rparr>,
      (slots_163 ! 8)\<lparr> msg_time := max 0 (clock (8) - 10606037) \<rparr>,
      (slots_163 ! 9)\<lparr> msg_time := max 0 (clock (9) - 1782087) \<rparr>],
      [0, 0, 0, 0, 0, 0, 0, 0, 0, 0])"
  unfolding generated_slots_def Let_def setup_span upt_10
  by (simp add: setup_span span_slots dedupe_fresh slot_hash_def [symmetric] slot_hashes_163
        lru_has_def lru_push_def)

lemma span_pool_first:
  "generatePool (repository_env [] []) (\<lambda>_. 1700000000000) opts_span initial_pool =
     ((pool_setup opts_span initial_pool)\<lparr> messages :=
      [(slots_163 ! 0)\<lparr> msg_time := 1699911957595 \<rparr>,
      (slots_163 ! 1)\<lparr> msg_time := 1699923565654 \<rparr>,
      (slots_163 ! 2)\<lparr> msg_time := 1699934061270 \<rparr>,
      (slots_163 ! 3)\<lparr> msg_time := 1699940898069 \<rparr>,
      (slots_163 ! 4)\<lparr> msg_time := 1699953313067 \<rparr>,
      (slots_163 ! 5)\<lparr> msg_time := 1699962281447 \<rparr>,
      (slots_163 ! 6)\<lparr> msg_time := 1699972140126 \<rparr>,
      (slots_163 ! 7)\<lparr> msg_time := 1699981644949 \<rparr>,
      (slots_163 ! 8)\<lparr> msg_time := 1699989393963 \<rparr>,
      (slots_163 ! 9)\<lparr> msg_time := 1699998217913 \<rparr>] \<rparr>,
      Inr
      [(slots_163 ! 0)\<lparr> msg_time := 1699911957595 \<rparr>,
      (slots_163 ! 1)\<lparr> msg_time := 1699923565654 \<rparr>,
      (slots_163 ! 2)\<lparr> msg_time := 1699934061270 \<rparr>,
      (slots_163 ! 3)\<lparr> msg_time := 1699940898069 \<rparr>,
      (slots_163 ! 4)\<lparr> msg_time := 1699953313067 \<rparr>,
      (slots_163 ! 5)\<lparr> msg_time := 1699962281447 \<rparr>,
      (slots_163 ! 6)\<lparr> msg_time := 1699972140126 \<rparr>,
      (slots_163 ! 7)\<lparr> msg_time := 1699981644949 \<rparr>,
      (slots_163 ! 8)\<lparr> msg_time := 1699989393963 \<rparr>,
      (slots_163 ! 9)\<lparr> msg_time := 1699998217913 \<rparr>])"
  by (simp add: generatePool_def span_generated enforce_monotonic_def Let_def)

lemma span_pool_second:
  "generatePool (repository_env [] []) (\<lambda>_. 1700000001000) opts_span initial_pool =
     ((pool_setup opts_span initial_pool)\<lparr> messages :=
      [(slots_163 ! 0)\<lparr> msg_time := 1699911958595 \<rparr>,
      (slots_163 ! 1)\<lparr> msg_time := 1699923566654 \<rparr>,
      (slots_163 ! 2)\<lparr> msg_time := 1699934062270 \<rparr>,
      (slots_163 ! 3)\<lparr> msg_time := 1699940899069 \<rparr>,
      (slots_163 ! 4)\<lparr> msg_time := 1699953314067 \<rparr>,
      (slots_163 ! 5)\<lparr> msg_time := 1699962282447 \<rparr>,
      (slots_163 ! 6)\<lparr> msg_time := 1699972141126 \<rparr>,
      (slots_163 ! 7)\<lparr> msg_time := 1699981645949 \<rparr>,
      (slots_163 ! 8)\<lparr> msg_time := 1699989394963 \<rparr>,
      (slots_163 ! 9)\<lparr> msg_time := 1699998218913 \<rparr>] \<rparr>,
      Inr
      [(slots_163 ! 0)\<lparr> msg_time := 1699911958595 \<rparr>,
      (slots_163 ! 1)\<lparr> msg_time := 1699923566654 \<rparr>,
      (slots_163 ! 2)\<lparr> msg_time := 1699934062270 \<rparr>,
      (slots_163 ! 3)\<lparr> msg_time := 1699940899069 \<rparr>,
      (slots_163 ! 4)\<lparr> msg_time := 1699953314067 \<rparr>,
      (slots_163 ! 5)\<lparr> msg_time := 1699962282447 \<rparr>,
      (slots_163 ! 6)\<lparr> msg_time := 1699972141126 \<rparr>,
      (slots_163 ! 7)\<lparr> msg_time := 1699981645949 \<rparr>,
      (slots_163 ! 8)\<lparr> msg_time := 1699989394963 \<rparr>,
      (slots_163 ! 9)\<lparr> msg_time := 1699998218913 \<rparr>])"
  by (simp add: generatePool_def span_generated enforce_monotonic_def Let_def)

text \<open>
  Claim C1 as stated fails. The options \<open>{size: 10, seedBase: 163, spanDays: 1, ...}\<close>
  leave the end of the time window to \<open>Date.now()\<close> (line 165): the same call on a
  fresh pool one second later returns the same texts with every time 1000 ms later.
\<close>

lemma generatePool_depends_on_clock:
  "\<exists>a b. snd (generatePool (repository_env [] []) (\<lambda>_. 1700000000000) opts_span initial_pool) = Inr a
      \<and> snd (generatePool (repository_env [] []) (\<lambda>_. 1700000001000) opts_span initial_pool) = Inr b
      \<and> map msg_time a =
          [1699911957595, 1699923565654, 1699934061270, 1699940898069, 1699953313067, 1699962281447, 1699972140126, 1699981644949, 1699989393963, 1699998217913]
      \<and> map msg_time b =
          [1699911958595, 1699923566654, 1699934062270, 1699940899069, 1699953314067, 1699962282447, 1699972141126, 1699981645949, 1699989394963, 1699998218913]"
  by (simp add: span_pool_first span_pool_second)

text \<open>The run of the example: ten messages, each later than the one before.\<close>

theorem generatePool_strictly_increasing_witness:
  "\<exists>st' pool. generatePool (repository_env [] []) (\<lambda>_. 1700000000000) opts_span initial_pool
                   = (st', Inr pool)
      \<and> list_all (\<lambda>m. \<bar>msg_time m\<bar> < 2 ^ 62) pool
      \<and> (0::nat) < 1 \<and> 1 < length pool
      \<and> messages st' = pool \<and> msg_time (pool ! (1 - 1)) < msg_time (pool ! 1)"
proof -
  have bound: "\<forall>m \<in> set
      [(slots_163 ! 0)\<lparr> msg_time := 1699911957595 \<rparr>,
      (slots_163 ! 1)\<lparr> msg_time := 1699923565654 \<rparr>,
      (slots_163 ! 2)\<lparr> msg_time := 1699934061270 \<rparr>,
      (slots_163 ! 3)\<lparr> msg_time := 1699940898069 \<rparr>,
      (slots_163 ! 4)\<lparr> msg_time := 1699953313067 \<rparr>,
      (slots_163 ! 5)\<lparr> msg_time := 1699962281447 \<rparr>,
      (slots_163 ! 6)\<lparr> msg_time := 1699972140126 \<rparr>,
      (slots_163 ! 7)\<lparr> msg_time := 1699981644949 \<rparr>,
      (slots_163 ! 8)\<lparr> msg_time := 1699989393963 \<rparr>,
      (slots_163 ! 9)\<lparr> msg_time := 1699998217913 \<rparr>]. \<bar>msg_time m\<bar> < 2 ^ 62"
    by simp
  from generatePool_strictly_increasing [OF span_pool_first bound, of 1] bound
  show ?thesis
    by (simp add: span_pool_first)
qed

subsection \<open>The run at times beyond the safe integers\<close>

lemma chain_far:
  "xorshift32_init 23606 = 23606"
  "xorshift32_next 23606 = 2069210965"
  "xorshift32_next 2069210965 = 944992714"
  "xorshift32_next 944992714 = 2603173151"
  "xorshift32_next 2603173151 = 3268765594"
  "xorshift32_next 3268765594 = 2867069353"
  "xorshift32_next 2867069353 = 1895279841"
  "xorshift32_next 1895279841 = 672269524"
  "xorshift32_next 672269524 = 2040439440"
  "xorshift32_init 39327 = 39327"
  "xorshift32_next 39327 = 1969057990"
  "xorshift32_next 1969057990 = 3019796964"
  "xorshift32_next 3019796964 = 3315281829"
  "xorshift32_next 3315281829 = 2912169426"
  "xorshift32_next 2912169426 = 769737061"
  "xorshift32_next 769737061 = 3161560035"
  "xorshift32_next 3161560035 = 1337665605"
  "xorshift32_next 1337665605 = 2092973724"
  "xorshift32_init 55048 = 55048"
  "xorshift32_next 55048 = 1188730232"
  "xorshift32_next 1188730232 = 2596697858"
  "xorshift32_next 2596697858 = 3504717617"
  "xorshift32_next 3504717617 = 2272672432"
  "xorshift32_next 2272672432 = 1143164576"
  "xorshift32_next 1143164576 = 2468107067"
  "xorshift32_next 2468107067 = 907857734"
  "xorshift32_next 907857734 = 1367297852"
  "xorshift32_init 70769 = 70769"
  "xorshift32_next 70769 = 1936425974"
  "xorshift32_next 1936425974 = 1639779836"
  "xorshift32_next 1639779836 = 3227472477"
  "xorshift32_next 3227472477 = 1753746871"
  "xorshift32_next 1753746871 = 1323695144"
  "xorshift32_next 1323695144 = 3715110808"
  "xorshift32_next 3715110808 = 804025209"
  "xorshift32_next 804025209 = 2447602872"
  "xorshift32_init 86490 = 86490"
  "xorshift32_next 86490 = 1836751911"
  "xorshift32_next 1836751911 = 3778152536"
  "xorshift32_next 3778152536 = 2802995396"
  "xorshift32_next 2802995396 = 1281257057"
  "xorshift32_next 1281257057 = 3017005992"
  "xorshift32_next 3017005992 = 3698409627"
  "xorshift32_next 3698409627 = 2015956970"
  "xorshift32_next 2015956970 = 1666712320"
  "xorshift32_init 102211 = 102211"
  "xorshift32_next 102211 = 215417175"
  "xorshift32_next 215417175 = 1934586377"
  "xorshift32_next 1934586377 = 1020104014"
  "xorshift32_next 1020104014 = 568685692"
  "xorshift32_next 568685692 = 1648151273"
  "xorshift32_next 1648151273 = 2538830969"
  "xorshift32_next 2538830969 = 3814204151"
  "xorshift32_next 3814204151 = 131112948"
  "xorshift32_next 131112948 = 2448206211"
  "xorshift32_init 117932 = 117932"
  "xorshift32_next 117932 = 186539174"
  "xorshift32_next 186539174 = 3520422019"
  "xorshift32_next 3520422019 = 3311596097"
  "xorshift32_next 3311596097 = 4269368660"
  "xorshift32_next 4269368660 = 2292321181"
  "xorshift32_next 2292321181 = 4092076501"
  "xorshift32_next 4092076501 = 227392956"
  "xorshift32_next 227392956 = 4252398721"
  "xorshift32_next 4252398721 = 1328538418"
  "xorshift32_init 133653 = 133653"
  "xorshift32_next 133653 = 1766972437"
  "xorshift32_next 1766972437 = 146406140"
  "xorshift32_next 146406140 = 3408543983"
  "xorshift32_next 3408543983 = 3855339508"
  "xorshift32_next 3855339508 = 445987886"
  "xorshift32_next 445987886 = 520418918"
  "xorshift32_next 520418918 = 3100026562"
  "xorshift32_next 3100026562 = 4022651245"
  "xorshift32_next 4022651245 = 2881687865"
  "xorshift32_init 149374 = 149374"
  "xorshift32_next 149374 = 1431945736"
  "xorshift32_next 1431945736 = 3456525316"
  "xorshift32_next 3456525316 = 1381649831"
  "xorshift32_next 1381649831 = 1715120720"
  "xorshift32_next 1715120720 = 1567018728"
  "xorshift32_next 1567018728 = 332012053"
  "xorshift32_next 332012053 = 1100666993"
  "xorshift32_next 1100666993 = 1208635995"
  "xorshift32_init 165095 = 165095"
  "xorshift32_next 165095 = 1129830824"
  "xorshift32_next 1129830824 = 3023189689"
  "xorshift32_next 3023189689 = 2923992747"
  "xorshift32_next 2923992747 = 791196741"
  "xorshift32_next 791196741 = 228661813"
  "xorshift32_next 228661813 = 4061267334"
  "xorshift32_next 4061267334 = 3874555447"
  "xorshift32_next 3874555447 = 13050028"
  "xorshift32_next 13050028 = 2122877541"
  by (simp_all add: xorshift32_init_def xorshift32_next_def to_uint32_def Let_def)

lemma far_slot_0:
  "generateMessageForIndex (repository_env [] []) (pool_setup opts_far initial_pool) now (0)
     (slot_opts opts_far 10 23606 sample_templates)
   = Inr (slots_far ! 0)"
  by (simp add: gen_eval chain_far opts_far_def slots_far_def cong: eval_cong)

lemma far_slot_1:
  "generateMessageForIndex (repository_env [] []) (pool_setup opts_far initial_pool) now (Suc 0)
     (slot_opts opts_far 10 23606 sample_templates)
   = Inr (slots_far ! 1)"
  by (simp add: gen_eval chain_far opts_far_def slots_far_def cong: eval_cong)

lemma far_slot_2:
  "generateMessageForIndex (repository_env [] []) (pool_setup opts_far initial_pool) now (2)
     (slot_opts opts_far 10 23606 sample_templates)
   = Inr (slots_far ! 2)"
  by (simp add: gen_eval chain_far opts_far_def slots_far_def cong: eval_cong)

lemma far_slot_3:
  "generateMessageForIndex (repository_env [] []) (pool_setup opts_far initial_pool) now (3)
     (slot_opts opts_far 10 23606 sample_templates)
   = Inr (slots_far ! 3)"
  by (simp add: gen_eval chain_far opts_far_def slots_far_def cong: eval_cong)

lemma far_slot_4:
  "generateMessageForIndex (repository_env [] []) (pool_setup opts_far initial_pool) now (4)
     (slot_opts opts_far 10 23606 sample_templates)
   = Inr (slots_far ! 4)"
  by (simp add: gen_eval chain_far opts_far_def slots_far_def cong: eval_cong)

lemma far_slot_5:
  "generateMessageForIndex (repository_env [] []) (pool_setup opts_far initial_pool) now (5)
     (slot_opts opts_far 10 23606 sample_templates)
   = Inr (slots_far ! 5)"
  by (simp add: gen_eval chain_far opts_far_def slots_far_def cong: eval_cong)

lemma far_slot_6:
  "generateMessageForIndex (repository_env [] []) (pool_setup opts_far initial_pool) now (6)
     (slot_opts opts_far 10 23606 sample_templates)
   = Inr (slots_far ! 6)"
  by (simp add: gen_eval chain_far opts_far_def slots_far_def cong: eval_cong)

lemma far_slot_7:
  "generateMessageForIndex (repository_env [] []) (pool_setup opts_far initial_pool) now (7)
     (slot_opts opts_far 10 23606 sample_templates)
   = Inr (slots_far ! 7)"
  by (simp add: gen_eval chain_far opts_far_def slots_far_def cong: eval_cong)

lemma far_slot_8:
  "generateMessageForIndex (repository_env [] []) (pool_setup opts_far initial_pool) now (8)
     (slot_opts opts_far 10 23606 sample_templates)
   = Inr (slots_far ! 8)"
  by (simp add: gen_eval chain_far opts_far_def slots_far_def cong: eval_cong)

lemma far_slot_9:
  "generateMessageForIndex (repository_env [] []) (pool_setup opts_far initial_pool) now (9)
     (slot_opts opts_far 10 23606 sample_templates)
   = Inr (slots_far ! 9)"
  by (simp add: gen_eval chain_far opts_far_def slots_far_def cong: eval_cong)

lemmas far_slots =
  far_slot_0 far_slot_1 far_slot_2 far_slot_3 far_slot_4 far_slot_5 far_slot_6 far_slot_7 far_slot_8 far_slot_9

lemma slot_hashes_far:
  "slot_hash (slots_far ! (0)) = js ''375iiw''"
  "slot_hash (slots_far ! (Suc 0)) = js ''yis7op''"
  "slot_hash (slots_far ! (2)) = js ''38pbiv''"
  "slot_hash (slots_far ! (3)) = js ''yiymiu''"
  "slot_hash (slots_far ! (4)) = js ''35p6vk''"
  "slot_hash (slots_far ! (5)) = js ''3ih6p1''"
  "slot_hash (slots_far ! (6)) = js ''11b70hb''"
  "slot_hash (slots_far ! (7)) = js ''375hta''"
  "slot_hash (slots_far ! (8)) = js ''375g7s''"
  "slot_hash (slots_far ! (9)) = js ''1i1yxk7''"
  by (simp_all add: slot_hash_def slots_far_def contentHash_def js_def toString36.simps digit36_def)

lemma setup_far:
  "templateFragments (pool_setup opts_far initial_pool) = sample_templates"
  "meta_size (meta (pool_setup opts_far initial_pool)) = 10"
  "meta_seedBase (meta (pool_setup opts_far initial_pool)) = 23606"
  "makeLRU_cap (o_dedupeLRU opts_far) = 4096"
  by (simp_all add: pool_setup_def opts_far_def no_opts_def initial_pool_def truthy_or_def
        nz_def clamp_def Let_def makeLRU_cap_def)

lemma far_generated:
  "generated_slots (repository_env [] []) clock opts_far initial_pool
     = Inr (slots_far, [0, 0, 0, 0, 0, 0, 0, 0, 0, 0])"
proof -
  have "generated_slots (repository_env [] []) clock opts_far initial_pool = Inr
     ([slots_far ! 0,
      slots_far ! 1,
      slots_far ! 2,
      slots_far ! 3,
      slots_far ! 4,
      slots_far ! 5,
      slots_far ! 6,
      slots_far ! 7,
      slots_far ! 8,
      slots_far ! 9],
      [0, 0, 0, 0, 0, 0, 0, 0, 0, 0])"
    unfolding generated_slots_def Let_def setup_far upt_10
    by (simp add: setup_far far_slots dedupe_fresh slot_hash_def [symmetric] slot_hashes_far
          lru_has_def lru_push_def)
  also have "[slots_far ! 0,
       slots_far ! 1,
       slots_far ! 2,
       slots_far ! 3,
       slots_far ! 4,
       slots_far ! 5,
       slots_far ! 6,
       slots_far ! 7,
       slots_far ! 8,
       slots_far ! 9] = slots_far"
    by (simp add: slots_far_def)
  finally show ?thesis .
qed

text \<open>
  Claim C2 as stated fails. With both ends of the window at \<open>1e19\<close> and a jitter of
  1 ms, the ten slots of this run all have the time \<open>1e19\<close>. The sort leaves them in
  place, and the loop of lines 257-259 gives each the sum of its predecessor's time and
  1000, which as a double is \<open>1e19\<close> again: \<open>generatePool\<close> returns ten messages with
  equal times.
\<close>

lemma generatePool_equal_times:
  "\<exists>st' pool. generatePool (repository_env [] []) (\<lambda>_. 0) opts_far initial_pool = (st', Inr pool)
      \<and> messages st' = pool
      \<and> map msg_time pool =
          [10000000000000000000, 10000000000000000000, 10000000000000000000, 10000000000000000000, 10000000000000000000,
      10000000000000000000, 10000000000000000000, 10000000000000000000, 10000000000000000000, 10000000000000000000]"
proof -
  have sorted: "sort_key msg_time slots_far = slots_far"
    by (rule sort_key_id_if_sorted) (simp add: slots_far_def)
  have bumped: "map msg_time (enforce_monotonic slots_far) =
      [10000000000000000000, 10000000000000000000, 10000000000000000000, 10000000000000000000, 10000000000000000000,
      10000000000000000000, 10000000000000000000, 10000000000000000000, 10000000000000000000, 10000000000000000000]"
    by (simp add: slots_far_def enforce_monotonic_def to_double_far)
  show ?thesis
    by (simp add: generatePool_def far_generated Let_def sorted bumped)
qed

subsection \<open>The run with retries\<close>



























































section \<open>Properties of SyntheticPeople\<close>









subsection \<open>The roles of the pool of 1000 with seed 2026\<close>

lemma draws_2026:
  "xorshift32_init 2026 = 2026"
  "xorshift32_next 2026 = 525710612"
  "xorshift32_next 525710612 = 2535152655"
  "xorshift32_next 2535152655 = 1875020290"
  "xorshift32_next 1875020290 = 4007165219"
  by (simp_all add: xorshift32_init_def xorshift32_next_def to_uint32_def Let_def)

lemma index_2026:
  "nat \<lfloor>rnd_value 525710612 * 1000\<rfloor> = 122"
  "nat \<lfloor>rnd_value 2535152655 * 1000\<rfloor> = 590"
  "nat \<lfloor>rnd_value 1875020290 * 1000\<rfloor> = 436"
  "nat \<lfloor>rnd_value 4007165219 * 1000\<rfloor> = 932"
  by (simp_all add: rnd_value_def floor_rat_eval)

lemma sample_indices_step:
  "sample_indices sz (Suc k) s =
     (nat \<lfloor>rnd_value (xorshift32_next s) * sz\<rfloor> # fst (sample_indices sz k (xorshift32_next s)),
      snd (sample_indices sz k (xorshift32_next s)))"
  by (simp add: Let_def case_prod_beta)

lemma admin_indices_2026:
  "fst (sample_indices 1000 4 (xorshift32_init 2026)) = [122, 590, 436, 932]"
proof -
  have four: "(4::nat) = Suc (Suc (Suc (Suc 0)))" by simp
  show ?thesis
    unfolding four
    by (simp only: sample_indices_step sample_indices.simps(1) draws_2026 index_2026
          fst_conv snd_conv)
qed

lemma count_admins:
  "length (filter (\<lambda>i. i \<in> set [122, 590, 436, 932]) [0..<1000]) = (4::nat)"
proof -
  have "{i. i \<in> set [122, 590, 436, 932::nat]} \<inter> set [0..<1000] = {122, 590, 436, 932}"
    by auto
  then show ?thesis
    by (simp add: distinct_length_filter)
qed


lemma person_at_admin:
  "p_role (person_at seedBase coin adminIndices modIndices i) = ADMIN \<longleftrightarrow> i \<in> set adminIndices"
  by (simp add: person_at_def Let_def)

lemma person_at_roles:
  "p_role (person_at seedBase coin adminIndices modIndices i) \<in> {ADMIN, MOD, VERIFIED}"
  by (simp add: person_at_def Let_def)

lemma people_pool_2026:
  "snd (people_generatePool coin \<lparr> po_size = Some (Num 1000), po_seedBase = Some 2026 \<rparr> m)
     = map (person_at 2026 coin [122, 590, 436, 932]
              (fst (sample_indices 1000 30 (snd (sample_indices 1000 4 (xorshift32_init 2026))))))
         [0..<1000]"
  by (simp add: people_generatePool_def Let_def case_prod_beta num_or_def num_truthy_def
        clamp_num_def truthy_or_def nz_def js_round_def floor_rat_eval num_value_def loop_count_def
        admin_indices_2026)

text \<open>
  Claim C6. \<open>generatePool({size: 1000, seedBase: 2026})\<close> returns 1000 people of whom
  exactly \<open>Math.round(1000 * 0.004) = 4\<close> have the role \<open>ADMIN\<close> (the four sampled
  indices 122, 590, 436 and 932 are distinct), and every person has one of the roles
  \<open>ADMIN\<close>, \<open>MOD\<close> and \<open>VERIFIED\<close>: whoever is neither \<open>ADMIN\<close> nor \<open>MOD\<close> is
  \<open>VERIFIED\<close>. This holds whatever \<open>Math.random()\<close> returns in \<open>makeDisplayName\<close> and
  whatever \<open>meta\<close> was before.
\<close>

theorem people_pool_1000_2026_roles:
  "(let pool = snd (people_generatePool coin
                     \<lparr> po_size = Some (Num 1000), po_seedBase = Some 2026 \<rparr> m)
    in length pool = 1000
       \<and> length (filter (\<lambda>p. p_role p = ADMIN) pool) = nat (js_round (1000 * (4 / 1000)))
       \<and> nat (js_round (1000 * (4 / 1000))) = 4
       \<and> list_all (\<lambda>p. p_role p = ADMIN \<or> p_role p = MOD \<or> p_role p = VERIFIED) pool)"
proof -
  have round: "nat (js_round (1000 * (4 / 1000))) = 4"
    by (simp add: js_round_def floor_rat_eval)
  have admins:
    "length (filter (\<lambda>p. p_role p = ADMIN)
       (map (person_at 2026 coin [122, 590, 436, 932] ms) [0..<1000])) = 4" for ms
    using count_admins by (simp add: filter_map comp_def person_at_admin)
  have roles:
    "list_all (\<lambda>p. p_role p = ADMIN \<or> p_role p = MOD \<or> p_role p = VERIFIED)
       (map (person_at 2026 coin [122, 590, 436, 932] ms) [0..<1000])" for ms
    using person_at_roles [of 2026 coin "[122, 590, 436, 932]" ms]
    by (simp add: list_all_iff)
  show ?thesis
    unfolding Let_def people_pool_2026 round
    using admins roles by simp
qed

section \<open>Properties of PresenceManager\<close>

lemma clamp_in_range:
  fixes lo hi v :: int
  assumes "lo \<le> hi"
  shows "lo \<le> max lo (min hi v) \<and> max lo (min hi v) \<le> hi"
  using assms by auto

lemma computeVisibleOnline_popts [simp]: "popts (snd (computeVisibleOnline now s)) = popts s"
  by (simp add: computeVisibleOnline_def Let_def case_prod_beta)

lemma computeVisibleOnline_value:
  "\<exists>v. fst (computeVisibleOnline now s) = max (minOnline (popts s)) (min (maxOnline (popts s)) v)"
  unfolding computeVisibleOnline_def Let_def case_prod_beta fst_conv by (rule exI) (rule refl)

lemma updateUICounts_popts [simp]: "popts (updateUICounts now s) = popts s"
  by (simp add: updateUICounts_def Let_def case_prod_beta)

lemma updateUICounts_shown:
  "\<exists>v. shown (updateUICounts now s) = Some (max (minOnline (popts s)) (min (maxOnline (popts s)) v))"
proof -
  have "shown (updateUICounts now s)
          = Some (max (minOnline (popts s)) (min (maxOnline (popts s))
              (fst (computeVisibleOnline now s)
               + js_round ((fst (rnd_read (prnd (snd (computeVisibleOnline now s)))) - 1 / 2) * 12))))"
    by (simp add: updateUICounts_def Let_def case_prod_beta)
  then show ?thesis by (rule exI)
qed

lemma tick_popts [simp]: "popts (tick now stepped s) = popts s"
  by (simp add: tick_def Let_def case_prod_beta)

lemma tick_shown:
  "\<exists>v. shown (tick now stepped s) = Some (max (minOnline (popts s)) (min (maxOnline (popts s)) v))"
proof -
  define s1 where
    "s1 = (let cfg = popts s;
          s0 = s\<lparr> lastActive := stepped \<rparr>;
          real = computeRealOnline cfg now stepped
      in (if real < baselineOnline cfg then
                  (let (n, l', r') = nudgeToBaseline cfg now (baselineOnline cfg - real) stepped (prnd s0)
                   in s0\<lparr> lastActive := l', prnd := r' \<rparr>)
                else if real > maxOnline cfg then
                  (let (n, l', r') = decaySomeToIdle cfg now (real - maxOnline cfg) stepped (prnd s0)
                   in s0\<lparr> lastActive := l', prnd := r' \<rparr>)
                else s0))"
  have t: "tick now stepped s = updateUICounts now s1"
    by (simp add: tick_def s1_def Let_def)
  have p: "popts s1 = popts s"
    by (simp add: s1_def Let_def case_prod_beta)
  from updateUICounts_shown [of now s1] show ?thesis
    unfolding t p .
qed

lemma run_ticks_shown:
  "list_all (\<lambda>v. \<exists>x. v = Some (max (minOnline (popts s)) (min (maxOnline (popts s)) x)))
     (run_ticks ticks s)"
proof (induction ticks arbitrary: s)
  case Nil
  show ?case by simp
next
  case (Cons t rest)
  obtain now stepped where t: "t = (now, stepped)" by (cases t)
  from Cons.IH [of "tick now stepped s"] tick_shown [of now stepped s]
  show ?case by (simp add: t Let_def)
qed

text \<open>
  Claim C3 as stated fails: \<open>configure\<close> stores the options it is given unchecked, and
  with \<open>minOnline = 100\<close> above \<open>maxOnline = 50\<close> the first tick on an empty member
  list displays 100, more than \<open>maxOnline\<close>.
\<close>

lemma presence_inverted_bounds:
  "run_ticks [(0, [])]
     (presence_configure (presence_defaults\<lparr> minOnline := 100, maxOnline := 50 \<rparr>)
        (presence_initial (seeded_source 4000)))
   = [Some 100]"
proof -
  define s where
    "s = presence_configure (presence_defaults\<lparr> minOnline := 100, maxOnline := 50 \<rparr>)
           (presence_initial (seeded_source 4000))"
  have "minOnline (popts s) = 100" "maxOnline (popts s) = 50"
    by (simp_all add: s_def presence_configure_def presence_initial_def)
  with tick_shown [of 0 "[]" s] show ?thesis
    by (auto simp: s_def [symmetric] Let_def)
qed

text \<open>
  Claim C3, amended. For every configuration with \<open>minOnline \<le> maxOnline\<close>, every
  member list, every random source and every sequence of ticks (each with its clock
  reading and the member list the presence step left), the count that
  \<open>computeVisibleOnline\<close> returns and every count displayed, jitter included, lie in
  \<open>[minOnline, maxOnline]\<close>.
\<close>

theorem presence_count_in_range:
  assumes "minOnline (popts s) \<le> maxOnline (popts s)"
  shows "minOnline (popts s) \<le> fst (computeVisibleOnline now s)
       \<and> fst (computeVisibleOnline now s) \<le> maxOnline (popts s)
       \<and> list_all (\<lambda>v. case v of None \<Rightarrow> False
                         | Some n \<Rightarrow> minOnline (popts s) \<le> n \<and> n \<le> maxOnline (popts s))
           (run_ticks ticks s)"
proof -
  from computeVisibleOnline_value [of now s] clamp_in_range [OF assms]
  have a: "minOnline (popts s) \<le> fst (computeVisibleOnline now s)
       \<and> fst (computeVisibleOnline now s) \<le> maxOnline (popts s)"
    by auto
  have b: "list_all (\<lambda>v. case v of None \<Rightarrow> False
                         | Some n \<Rightarrow> minOnline (popts s) \<le> n \<and> n \<le> maxOnline (popts s))
           (run_ticks ticks s)"
    using run_ticks_shown [of s ticks] clamp_in_range [OF assms]
    by (auto simp: list_all_iff)
  from a b show ?thesis by simp
qed

lemma first_draw_4000: "xorshift32_seq 4000 0 = 1064690714 / 4294967296"
  by (simp add: xorshift32_seq_def xorshift32_init_def xorshift32_next_def to_uint32_def
        rnd_value_def Let_def)

lemma tick_80_online:
  "run_ticks [(1000, replicate 80 1000)] (presence_initial (seeded_source 4000)) = [Some 77]"
  by (simp add: tick_def updateUICounts_def computeVisibleOnline_def computeRealOnline_def
        presence_initial_def presence_defaults_def seeded_source_def rnd_read_def Let_def
        first_draw_4000 js_round_def floor_rat_eval)

theorem presence_count_in_range_witness:
  "minOnline (popts (presence_initial (seeded_source 4000)))
     \<le> maxOnline (popts (presence_initial (seeded_source 4000)))
   \<and> run_ticks [(1000, replicate 80 1000)] (presence_initial (seeded_source 4000)) = [Some 77]
   \<and> minOnline (popts (presence_initial (seeded_source 4000))) \<le> 77
   \<and> 77 \<le> maxOnline (popts (presence_initial (seeded_source 4000)))"
proof -
  have le: "minOnline (popts (presence_initial (seeded_source 4000)))
     \<le> maxOnline (popts (presence_initial (seeded_source 4000)))"
    by (simp add: presence_initial_def presence_defaults_def)
  from presence_count_in_range [OF le, of 1000 "[(1000, replicate 80 1000)]"] le tick_80_online
  show ?thesis by simp
qed

section \<open>Properties of TypingEngine\<close>

lemma session_inv_initial: "session_inv (typing_initial r)"
  by (simp add: session_inv_def typing_initial_def)

lemma session_inv_trigger:
  assumes "session_inv s"
  shows "session_inv (triggerTyping e now names d s)"
    and "pending (timers (triggerTyping e now names d s))
           = [(next_handle (timers s),
               now + max 0 (typing_duration (tcfg s)
                              (length (fst (resolve_names (tcfg s) e names (trnd s)))) d))]"
    and "clearTimer (triggerTyping e now names d s) = Some (next_handle (timers s))"
    and "displayed (triggerTyping e now names d s) = fst (resolve_names (tcfg s) e names (trnd s))"
    and "active (triggerTyping e now names d s)"
    and "clearTimer s = Some h \<Longrightarrow> spent h (triggerTyping e now names d s)"
  using assms
  by (auto simp: session_inv_def triggerTyping_def setTimeout_def clearTimeout_def spent_def
        Let_def case_prod_beta split: option.splits)

lemma session_inv_clear: "session_inv s \<Longrightarrow> session_inv (typing_clear s)"
  by (auto simp: session_inv_def typing_clear_def clearTypingUI_def clearTimeout_def
        split: option.splits)

lemma session_inv_fire: "session_inv s \<Longrightarrow> session_inv (typing_fire h now s)"
  by (auto simp: session_inv_def typing_fire_def clearTypingUI_def clearTimeout_def is_due_def
        split: option.splits)

lemma session_inv_step: "session_inv s \<Longrightarrow> session_inv (typing_step e ev s)"
  by (cases ev) (simp_all add: session_inv_trigger(1) session_inv_clear session_inv_fire)

lemma session_inv_run: "session_inv s \<Longrightarrow> session_inv (typing_run e evs s)"
  unfolding typing_run_def
  by (induction evs arbitrary: s) (simp_all add: session_inv_step)

lemma spent_step: "spent h s \<Longrightarrow> spent h (typing_step e ev s)"
proof (cases ev)
  case (Trigger now names d)
  assume "spent h s"
  then show ?thesis
    by (auto simp: Trigger spent_def triggerTyping_def setTimeout_def clearTimeout_def
          Let_def case_prod_beta split: option.splits)
next
  case Clear
  assume "spent h s"
  then show ?thesis
    by (auto simp: Clear spent_def typing_clear_def clearTypingUI_def clearTimeout_def
          split: option.splits)
next
  case (Fire k now)
  assume "spent h s"
  then show ?thesis
    by (auto simp: Fire spent_def typing_fire_def clearTypingUI_def clearTimeout_def)
qed

lemma spent_run: "spent h s \<Longrightarrow> spent h (typing_run e evs s)"
  unfolding typing_run_def
  by (induction evs arbitrary: s) (simp_all add: spent_step)

lemma spent_never_fires: "spent h s \<Longrightarrow> typing_fire h now s = s"
  by (force simp: spent_def typing_fire_def is_due_def)

text \<open>
  Claim C4. In every state \<open>s\<close> the engine reaches from its initial state by calls of
  \<open>triggerTyping\<close> and \<open>clear\<close> and expiries of its timers, at most one expiry timer is
  pending, and it is the one held in \<open>clearTimer\<close>. A further \<open>triggerTyping\<close> shows
  exactly the names of that call and leaves exactly its own timer pending; the timer
  \<open>h\<close> of the session it replaces is cancelled and its callback can never run, whatever
  happens later.
\<close>

theorem typing_single_session:
  "(let s = typing_run e evs (typing_initial r);
        s' = triggerTyping e now names d s
    in map fst (pending (timers s)) = (case clearTimer s of None \<Rightarrow> [] | Some h \<Rightarrow> [h])
       \<and> isActive s'
       \<and> displayed s' = fst (resolve_names (tcfg s) e names (trnd s))
       \<and> map fst (pending (timers s')) = [next_handle (timers s)]
       \<and> clearTimer s' = Some (next_handle (timers s))
       \<and> (\<forall>h later now'. clearTimer s = Some h \<longrightarrow>
             h \<notin> fst ` set (pending (timers (typing_run e later s')))
             \<and> typing_fire h now' (typing_run e later s') = typing_run e later s'))"
proof -
  define s where "s = typing_run e evs (typing_initial r)"
  have inv: "session_inv s"
    unfolding s_def by (rule session_inv_run [OF session_inv_initial])
  have one: "map fst (pending (timers s)) = (case clearTimer s of None \<Rightarrow> [] | Some h \<Rightarrow> [h])"
    using inv by (auto simp: session_inv_def split: option.splits)
  have later: "h \<notin> fst ` set (pending (timers (typing_run e later (triggerTyping e now names d s))))
      \<and> typing_fire h now' (typing_run e later (triggerTyping e now names d s))
          = typing_run e later (triggerTyping e now names d s)"
    if "clearTimer s = Some h" for h later now'
  proof -
    from spent_run [OF session_inv_trigger(6) [OF inv that]]
    have sp: "spent h (typing_run e later (triggerTyping e now names d s))" .
    from sp spent_never_fires [OF sp] show ?thesis by (simp add: spent_def)
  qed
  from one later session_inv_trigger(2-5) [OF inv, of e now names d]
  show ?thesis
    unfolding Let_def s_def [symmetric] isActive_def by simp
qed

lemma ava_then_kofi:
  "typing_run (repository_env [] []) [Trigger 0 [js ''Ava''] (Some 500)]
     (typing_initial (seeded_source 1))
   = \<lparr> tcfg = typing_defaults, trnd = seeded_source 1, active = True, clearTimer = Some 1,
       timers = \<lparr> next_handle = 2, pending = [(1, 500)] \<rparr>, displayed = [js ''Ava''] \<rparr>"
  "triggerTyping (repository_env [] []) 100 [js ''Kofi''] (Some 500)
     \<lparr> tcfg = typing_defaults, trnd = seeded_source 1, active = True, clearTimer = Some 1,
       timers = \<lparr> next_handle = 2, pending = [(1, 500)] \<rparr>, displayed = [js ''Ava''] \<rparr>
   = \<lparr> tcfg = typing_defaults, trnd = seeded_source 1, active = True, clearTimer = Some 2,
       timers = \<lparr> next_handle = 3, pending = [(2, 600)] \<rparr>, displayed = [js ''Kofi''] \<rparr>"
  by (simp_all add: typing_run_def typing_initial_def triggerTyping_def resolve_names_def
        typing_duration_def typing_defaults_def setTimeout_def clearTimeout_def Let_def js_def)

theorem typing_single_session_witness:
  "clearTimer (typing_run (repository_env [] []) [Trigger 0 [js ''Ava''] (Some 500)]
                (typing_initial (seeded_source 1))) = Some 1
   \<and> triggerTyping (repository_env [] []) 100 [js ''Kofi''] (Some 500)
       (typing_run (repository_env [] []) [Trigger 0 [js ''Ava''] (Some 500)]
          (typing_initial (seeded_source 1)))
     = \<lparr> tcfg = typing_defaults, trnd = seeded_source 1, active = True, clearTimer = Some 2,
         timers = \<lparr> next_handle = 3, pending = [(2, 600)] \<rparr>, displayed = [js ''Kofi''] \<rparr>
   \<and> typing_fire 1 500
       \<lparr> tcfg = typing_defaults, trnd = seeded_source 1, active = True, clearTimer = Some 2,
         timers = \<lparr> next_handle = 3, pending = [(2, 600)] \<rparr>, displayed = [js ''Kofi''] \<rparr>
     = \<lparr> tcfg = typing_defaults, trnd = seeded_source 1, active = True, clearTimer = Some 2,
         timers = \<lparr> next_handle = 3, pending = [(2, 600)] \<rparr>, displayed = [js ''Kofi''] \<rparr>"
proof -
  have run0: "typing_run (repository_env [] []) []
      \<lparr> tcfg = typing_defaults, trnd = seeded_source 1, active = True, clearTimer = Some 2,
        timers = \<lparr> next_handle = 3, pending = [(2, 600)] \<rparr>, displayed = [js ''Kofi''] \<rparr>
    = \<lparr> tcfg = typing_defaults, trnd = seeded_source 1, active = True, clearTimer = Some 2,
        timers = \<lparr> next_handle = 3, pending = [(2, 600)] \<rparr>, displayed = [js ''Kofi''] \<rparr>"
    by (simp add: typing_run_def)
  from typing_single_session [of "repository_env [] []" "[Trigger 0 [js ''Ava''] (Some 500)]"
      "seeded_source 1" 100 "[js ''Kofi'']" "Some 500"]
  have "\<forall>h later now'. Some (1::nat) = Some h \<longrightarrow>
          typing_fire h now' (typing_run (repository_env [] []) later
            \<lparr> tcfg = typing_defaults, trnd = seeded_source 1, active = True, clearTimer = Some 2,
              timers = \<lparr> next_handle = 3, pending = [(2, 600)] \<rparr>, displayed = [js ''Kofi''] \<rparr>)
          = typing_run (repository_env [] []) later
            \<lparr> tcfg = typing_defaults, trnd = seeded_source 1, active = True, clearTimer = Some 2,
              timers = \<lparr> next_handle = 3, pending = [(2, 600)] \<rparr>, displayed = [js ''Kofi''] \<rparr>"
    unfolding Let_def ava_then_kofi by simp
  then have "typing_fire 1 500 (typing_run (repository_env [] []) []
            \<lparr> tcfg = typing_defaults, trnd = seeded_source 1, active = True, clearTimer = Some 2,
              timers = \<lparr> next_handle = 3, pending = [(2, 600)] \<rparr>, displayed = [js ''Kofi''] \<rparr>)
          = typing_run (repository_env [] []) []
            \<lparr> tcfg = typing_defaults, trnd = seeded_source 1, active = True, clearTimer = Some 2,
              timers = \<lparr> next_handle = 3, pending = [(2, 600)] \<rparr>, displayed = [js ''Kofi''] \<rparr>"
    by blast
  then show ?thesis
    unfolding ava_then_kofi run0 by simp
qed

section \<open>Properties of SimulationEngine\<close>

lemma delayed_render_survives_stop:
  assumes "draws r (pos r) < 75 / 100"
  shows "sim_stop (fst (triggerOnce (\<lambda>i. Some m) now (sim_initial r)))
         = (sim_initial r)
             \<lparr> pageIdx := 1, srnd := r\<lparr> pos := Suc (pos r) \<rparr>,
               stimers := \<lparr> sim_next_handle = 2,
                 sim_pending =
                   [(1, now + (computeTypingDurationForMessage sim_defaults m + 80), Render m)] \<rparr> \<rparr>"
proof -
  have "0 \<le> computeTypingDurationForMessage sim_defaults m + 80"
    by (simp add: computeTypingDurationForMessage_def sim_defaults_def clamp_def)
  then show ?thesis
    using assms
    by (simp add: triggerOnce_def sim_stop_def sim_initial_def sim_defaults_def rnd_read_def
          sim_setTimeout_def Let_def max_def)
qed

text \<open>
  Claim C7. The engine is configured with seed 4000 and asked for one message
  (\<open>triggerOnce\<close>, at clock 0); the message has the text \<open>gm\<close>, and the draw decides to
  simulate typing, so its render is scheduled 380 ms later. \<open>stop()\<close> follows at once.
  After \<open>stop()\<close> the engine is not running, yet the timer of the delayed render is
  still pending, because its handle was never kept; at 380 ms it fires and the message
  is rendered.
\<close>

theorem stop_leaves_render_pending:
  "(let s1 = fst (triggerOnce (\<lambda>i. Some example_message) 0 (sim_initial (seeded_source 4000)));
        s2 = sim_stop s1
    in \<not> running s2 \<and> timer s2 = None \<and> currentStreamer s2 = None
       \<and> rendered s2 = []
       \<and> sim_pending (stimers s2) = [(1, 380, Render example_message)]
       \<and> rendered (fire_render 1 380 s2) = [example_message])"
proof -
  have draw: "draws (seeded_source 4000) (pos (seeded_source 4000)) < 75 / 100"
    by (simp add: seeded_source_def first_draw_4000)
  have dur: "computeTypingDurationForMessage sim_defaults example_message = 300"
    by (simp add: computeTypingDurationForMessage_def sim_defaults_def example_message_def
          clamp_def js_def)
  show ?thesis
    unfolding Let_def delayed_render_survives_stop [OF draw] dur
    by (simp add: sim_initial_def fire_render_def sim_clearTimeout_def)
qed

end
